theory Spec2Isabelle
  imports Main "HOL-Library.Product_Lexorder" "HOL-Library.List_Lexorder"
begin

section \<open>Python strings\<close>

text \<open>
  A Python \<open>str\<close> is a sequence of Unicode code points, so it is modelled as a list of
  code points. The spreadsheet headers of the application are Chinese, and their comparison
  is by code point.
\<close>

type_synonym pystr = "nat list"

definition ascii :: "string \<Rightarrow> pystr" where
  "ascii s = map of_char s"

text \<open>The code points for which \<open>str.isspace\<close> holds: what \<open>str.strip()\<close> removes.\<close>

definition py_isspace :: "nat \<Rightarrow> bool" where
  "py_isspace c =
     ((9 \<le> c \<and> c \<le> 13) \<or> (28 \<le> c \<and> c \<le> 32) \<or> c = 133 \<or> c = 160 \<or> c = 5760 \<or>
      (8192 \<le> c \<and> c \<le> 8202) \<or> c = 8232 \<or> c = 8233 \<or> c = 8239 \<or> c = 8287 \<or> c = 12288)"

definition strip :: "pystr \<Rightarrow> pystr" where
  "strip s = rev (dropWhile py_isspace (rev (dropWhile py_isspace s)))"

text \<open>\<open>str(n)\<close> of a non-negative Python integer: its decimal digits.\<close>

function show_nat :: "nat \<Rightarrow> pystr" where
  "show_nat n = (if n < 10 then [48 + n] else show_nat (n div 10) @ [48 + n mod 10])"
  by pat_completeness auto
termination
  by (relation "measure id") auto

declare show_nat.simps [simp del]

definition show_int :: "int \<Rightarrow> pystr" where
  "show_int i = (if i < 0 then 45 # show_nat (nat (- i)) else show_nat (nat i))"

section \<open>Values\<close>

text \<open>
  What SQLite stores. Floating-point and blob values are outside the model.
\<close>

datatype sqlval = Null | Integer int | Text pystr

text \<open>
  A cell of the data frame that \<open>pandas.read_excel\<close> returns: a text cell, an empty cell
  (\<open>NaN\<close>), or any other Python object, which the importer only ever passes to \<open>str()\<close>
  and to the SQLite driver. Such an object is given by its \<open>str()\<close> and by the value the
  driver binds it to; \<open>None\<close> is a type the driver refuses (a \<open>numpy.int64\<close>, say).
  The Python integer 5 is \<open>CObj (ascii ''5'') (Some (Integer 5))\<close>.
\<close>

datatype cell = CStr pystr | CNaN | CObj pystr "sqlval option"

text \<open>
  What \<open>row.get(label, default)\<close> returns: one value, or, when several columns of the
  frame carry the label, the \<open>Series\<close> of their values.
\<close>

datatype got = One cell | Many "cell list"

text \<open>
  A value of the JSON body of a request, as \<open>request.get_json()\<close> gives it: \<open>None\<close>, a
  \<open>bool\<close>, an \<open>int\<close> of any size, a \<open>str\<close>, a \<open>list\<close> or a \<open>dict\<close>. Numbers with
  a fraction or an exponent are outside the model, as floating-point values are.
\<close>

datatype json =
  JNull | JBool bool | JInt int | JStr pystr | JArray "json list" | JObject "(pystr \<times> json) list"

text \<open>The truth value of Python: \<open>None\<close>, \<open>False\<close>, 0 and what is empty are false.\<close>

fun truthy :: "json \<Rightarrow> bool" where
  "truthy JNull = False"
| "truthy (JBool b) = b"
| "truthy (JInt i) = (i \<noteq> 0)"
| "truthy (JStr s) = (s \<noteq> [])"
| "truthy (JArray js) = (js \<noteq> [])"
| "truthy (JObject kvs) = (kvs \<noteq> [])"

text \<open>A column header of the frame: text, or something else (a number, a date).\<close>

datatype hdr = HStr pystr | HOther

record dataframe =
  df_columns :: "hdr list"
  df_data :: "cell list list"

text \<open>
  What the program takes from its run-time environment and not from its own code:
  \<open>str.lower\<close> on arbitrary Unicode text, the \<open>str()\<close> of a pandas \<open>Series\<close>,
  SQLite's reading of a text as an integer where a column of numeric affinity meets a text
  (\<open>None\<close> when the text is not an integer literal), and SQLite's \<open>CURRENT_TIMESTAMP\<close>
  at the insertion of the row with a given index.
\<close>

record runtime =
  py_lower :: "pystr \<Rightarrow> pystr"
  series_str :: "cell list \<Rightarrow> pystr"
  sqlite_numeric :: "pystr \<Rightarrow> int option"
  current_timestamp :: "nat \<Rightarrow> pystr"

datatype exn =
  AttributeError | OperationalError | ProgrammingError | OverflowError | UnicodeEncodeError

section \<open>The importer: reconciling the headers\<close>

text \<open>
  The spreadsheet headers of \<open>column_mapping\<close>, as code points:
  U+5E8F U+53F7; U+516C U+53F8 U+540D U+79F0; U+6279 U+6B21; U+4F01 U+4E1A U+6027 U+8D28;
  U+884C U+4E1A U+5927 U+7C7B; U+62DB U+8058 U+5BF9 U+8C61; U+62DB U+8058 U+5C97 U+4F4D;
  U+7F51 U+7533 U+72B6 U+6001; U+5DE5 U+4F5C U+5730 U+70B9; U+66F4 U+65B0 U+65F6 U+95F4;
  U+622A U+6B62 U+65F6 U+95F4; U+5B98 U+65B9 U+516C U+544A; U+6295 U+9012 U+65B9 U+5F0F;
  U+5185 U+63A8 U+7801 U+002F U+5907 U+6CE8.
\<close>

definition xuhao :: pystr where "xuhao = [24207, 21495]"
definition gongsi_mingcheng :: pystr where "gongsi_mingcheng = [20844, 21496, 21517, 31216]"
definition pici :: pystr where "pici = [25209, 27425]"
definition qiye_xingzhi :: pystr where "qiye_xingzhi = [20225, 19994, 24615, 36136]"
definition hangye_dalei :: pystr where "hangye_dalei = [34892, 19994, 22823, 31867]"
definition zhaopin_duixiang :: pystr where "zhaopin_duixiang = [25307, 32856, 23545, 35937]"
definition zhaopin_gangwei :: pystr where "zhaopin_gangwei = [25307, 32856, 23703, 20301]"
definition wangshen_zhuangtai :: pystr where "wangshen_zhuangtai = [32593, 30003, 29366, 24577]"
definition gongzuo_didian :: pystr where "gongzuo_didian = [24037, 20316, 22320, 28857]"
definition gengxin_shijian :: pystr where "gengxin_shijian = [26356, 26032, 26102, 38388]"
definition jiezhi_shijian :: pystr where "jiezhi_shijian = [25130, 27490, 26102, 38388]"
definition guanfang_gonggao :: pystr where "guanfang_gonggao = [23448, 26041, 20844, 21578]"
definition toudi_fangshi :: pystr where "toudi_fangshi = [25237, 36882, 26041, 24335]"
definition neituima_beizhu :: pystr where
  "neituima_beizhu = [20869, 25512, 30721, 47, 22791, 27880]"

definition column_mapping :: "(pystr \<times> pystr) list" where
  "column_mapping =
    [(xuhao, ascii ''serial_number''),
     (gongsi_mingcheng, ascii ''company_name''),
     (pici, ascii ''batch''),
     (qiye_xingzhi, ascii ''company_type''),
     (hangye_dalei, ascii ''industry''),
     (zhaopin_duixiang, ascii ''recruitment_target''),
     (zhaopin_gangwei, ascii ''positions''),
     (wangshen_zhuangtai, ascii ''application_status''),
     (gongzuo_didian, ascii ''location''),
     (gengxin_shijian, ascii ''update_time''),
     (jiezhi_shijian, ascii ''deadline''),
     (guanfang_gonggao, ascii ''official_announcement''),
     (toudi_fangshi, ascii ''application_method''),
     (neituima_beizhu, ascii ''referral_code'')]"

text \<open>
  \<open>df.columns.str.strip()\<close> followed by \<open>col.strip()\<close> on each result: on a header
  that is not text, one or the other raises \<open>AttributeError\<close>.
\<close>

fun excel_columns_of :: "hdr list \<Rightarrow> exn + pystr list" where
  "excel_columns_of [] = Inr []"
| "excel_columns_of (HOther # hs) = Inl AttributeError"
| "excel_columns_of (HStr col # hs) =
     (case excel_columns_of hs of
        Inl e \<Rightarrow> Inl e
      | Inr cols \<Rightarrow> Inr (strip (strip col) # cols))"

text \<open>
  The loop over \<open>column_mapping.items()\<close> that fills the dictionary \<open>mapped_columns\<close>:
  the exact match first, otherwise the first header equal up to case.
\<close>

fun map_columns ::
  "runtime \<Rightarrow> pystr list \<Rightarrow> (pystr \<times> pystr) list \<Rightarrow> (pystr \<rightharpoonup> pystr) \<Rightarrow> (pystr \<rightharpoonup> pystr)" where
  "map_columns rt excel_columns [] mapped_columns = mapped_columns"
| "map_columns rt excel_columns ((excel_col, db_col) # items) mapped_columns =
     (if excel_col \<in> set excel_columns
      then map_columns rt excel_columns items (mapped_columns(excel_col \<mapsto> db_col))
      else (case find (\<lambda>ec. py_lower rt ec = py_lower rt excel_col) excel_columns of
              Some ec \<Rightarrow> map_columns rt excel_columns items (mapped_columns(ec \<mapsto> db_col))
            | None \<Rightarrow> map_columns rt excel_columns items mapped_columns))"

text \<open>
  \<open>df.rename(columns=mapped_columns)\<close>: a column whose name is a key of the dictionary
  takes the value as its name; the others keep theirs. The names looked up are the names
  of the frame, as read from the file.
\<close>

fun rename_label :: "(pystr \<rightharpoonup> pystr) \<Rightarrow> hdr \<Rightarrow> hdr" where
  "rename_label m (HStr c) = (case m c of Some v \<Rightarrow> HStr v | None \<Rightarrow> HStr c)"
| "rename_label m HOther = HOther"

definition rename :: "(pystr \<rightharpoonup> pystr) \<Rightarrow> hdr list \<Rightarrow> hdr list" where
  "rename m labels = map (rename_label m) labels"

text \<open>
  The part of \<open>load_data_to_db\<close> from the frame to the frame with its columns renamed: the
  trimmed headers are only used to fill \<open>mapped_columns\<close>.
\<close>

definition renamed_columns :: "runtime \<Rightarrow> dataframe \<Rightarrow> exn + hdr list" where
  "renamed_columns rt df =
     (case excel_columns_of (df_columns df) of
        Inl e \<Rightarrow> Inl e
      | Inr excel_columns \<Rightarrow>
          (let mapped_columns = map_columns rt excel_columns column_mapping Map.empty
           in Inr (rename mapped_columns (df_columns df))))"

section \<open>The importer: the insertion tuple of a row\<close>

definition row_get :: "hdr list \<Rightarrow> cell list \<Rightarrow> pystr \<Rightarrow> cell \<Rightarrow> got" where
  "row_get labels row key dflt =
     (case map snd (filter (\<lambda>(l, v). l = HStr key) (zip labels row)) of
        [] \<Rightarrow> One dflt
      | [v] \<Rightarrow> One v
      | vs \<Rightarrow> Many vs)"

fun cell_str :: "cell \<Rightarrow> pystr" where
  "cell_str (CStr s) = s"
| "cell_str CNaN = ascii ''nan''"
| "cell_str (CObj s b) = s"

fun py_str :: "runtime \<Rightarrow> got \<Rightarrow> pystr" where
  "py_str rt (One c) = cell_str c"
| "py_str rt (Many cs) = series_str rt cs"

definition insert_data :: "runtime \<Rightarrow> hdr list \<Rightarrow> cell list \<Rightarrow> nat \<Rightarrow> got list" where
  "insert_data rt labels row idx =
    [One (CStr (py_str rt (row_get labels row (ascii ''serial_number'') (CStr (show_nat (idx + 1)))))),
     row_get labels row (ascii ''company_name'') (CStr []),
     row_get labels row (ascii ''batch'') (CStr []),
     row_get labels row (ascii ''company_type'') (CStr []),
     row_get labels row (ascii ''industry'') (CStr []),
     row_get labels row (ascii ''recruitment_target'') (CStr []),
     row_get labels row (ascii ''positions'') (CStr []),
     row_get labels row (ascii ''application_status'') (CStr []),
     row_get labels row (ascii ''location'') (CStr []),
     row_get labels row (ascii ''update_time'') (CStr []),
     row_get labels row (ascii ''deadline'') (CStr []),
     row_get labels row (ascii ''official_announcement'') (CStr []),
     row_get labels row (ascii ''application_method'') (CStr []),
     row_get labels row (ascii ''referral_code'') (CStr [])]"

text \<open>The column list of the \<open>INSERT\<close> statement, in the order of the tuple.\<close>

definition insert_columns :: "string list" where
  "insert_columns =
    [''serial_number'', ''company_name'', ''batch'', ''company_type'', ''industry'',
     ''recruitment_target'', ''positions'', ''application_status'', ''location'',
     ''update_time'', ''deadline'', ''official_announcement'',
     ''application_method'', ''referral_code'']"

section \<open>The SQLite table\<close>

text \<open>
  The table \<open>companies\<close>, as far as the program uses SQLite: the name it is stored
  under in \<open>sqlite_master\<close>, its column declarations, its rows and the counter that
  \<open>AUTOINCREMENT\<close> keeps in \<open>sqlite_sequence\<close>. A row gives a value to every declared
  column, under the name in the declaration. A statement on \<open>companies\<close> reaches the table
  whatever the case of the letters of its stored name.
\<close>

datatype ctype =
  TEXT | INTEGER | TIMESTAMP | INTEGER_PRIMARY_KEY | INTEGER_PRIMARY_KEY_AUTOINCREMENT

datatype cdefault = NoDefault | DefaultInt int | DefaultCurrentTimestamp

record coldecl =
  col_name :: string
  col_type :: ctype
  col_default :: cdefault

type_synonym row = "(string \<times> sqlval) list"

record table =
  table_name :: string
  cols :: "coldecl list"
  rows :: "row list"
  seq :: int

text \<open>The database file: the table, or \<open>None\<close> while it has not been created.\<close>

type_synonym db = "table option"

text \<open>SQLite compares identifiers without regard to the case of ASCII letters.\<close>

definition sql_fold :: "char \<Rightarrow> char" where
  "sql_fold c =
     (case map_of (zip ''ABCDEFGHIJKLMNOPQRSTUVWXYZ'' ''abcdefghijklmnopqrstuvwxyz'') c of
        Some l \<Rightarrow> l
      | None \<Rightarrow> c)"

definition sql_name :: "string \<Rightarrow> string" where
  "sql_name n = map sql_fold n"

definition find_column :: "table \<Rightarrow> string \<Rightarrow> coldecl option" where
  "find_column t n = find (\<lambda>c. sql_name (col_name c) = sql_name n) (cols t)"

definition sql_value :: "row \<Rightarrow> string \<Rightarrow> sqlval" where
  "sql_value r n =
     (case find (\<lambda>(k, v). sql_name k = sql_name n) r of
        Some (k, v) \<Rightarrow> v
      | None \<Rightarrow> Null)"

definition set_value :: "row \<Rightarrow> string \<Rightarrow> sqlval \<Rightarrow> row" where
  "set_value r n x = map (\<lambda>(k, v). if sql_name k = sql_name n then (k, x) else (k, v)) r"

text \<open>
  Column affinity: a column declared \<open>TEXT\<close> turns an integer into its decimal text; a
  column of any other declared type here turns a text that reads as an integer into that
  integer. The same conversion is applied to the other operand of a comparison.
\<close>

definition apply_affinity :: "runtime \<Rightarrow> ctype \<Rightarrow> sqlval \<Rightarrow> sqlval" where
  "apply_affinity rt ty v =
     (case ty of
        TEXT \<Rightarrow> (case v of Integer i \<Rightarrow> Text (show_int i) | _ \<Rightarrow> v)
      | _ \<Rightarrow> (case v of
                 Text s \<Rightarrow> (case sqlite_numeric rt s of Some i \<Rightarrow> Integer i | None \<Rightarrow> v)
               | _ \<Rightarrow> v))"

definition sql_eq :: "runtime \<Rightarrow> ctype \<Rightarrow> sqlval \<Rightarrow> sqlval \<Rightarrow> bool" where
  "sql_eq rt ty v p = (v \<noteq> Null \<and> p \<noteq> Null \<and> v = apply_affinity rt ty p)"

definition is_pk :: "coldecl \<Rightarrow> bool" where
  "is_pk c = (col_type c = INTEGER_PRIMARY_KEY \<or> col_type c = INTEGER_PRIMARY_KEY_AUTOINCREMENT)"

definition default_value :: "runtime \<Rightarrow> nat \<Rightarrow> coldecl \<Rightarrow> sqlval" where
  "default_value rt idx c =
     apply_affinity rt (col_type c)
       (case col_default c of
          NoDefault \<Rightarrow> Null
        | DefaultInt i \<Rightarrow> Integer i
        | DefaultCurrentTimestamp \<Rightarrow> Text (current_timestamp rt idx))"

text \<open>
  The key of a new row: one more than the largest key in the table, and with
  \<open>AUTOINCREMENT\<close> one more than the largest key the table has ever held.
\<close>

definition column_ints :: "table \<Rightarrow> coldecl \<Rightarrow> int list" where
  "column_ints t c =
     concat (map (\<lambda>r. case sql_value r (col_name c) of Integer i \<Rightarrow> [i] | _ \<Rightarrow> []) (rows t))"

definition next_id :: "table \<Rightarrow> coldecl \<Rightarrow> int" where
  "next_id t c =
     (if col_type c = INTEGER_PRIMARY_KEY_AUTOINCREMENT
      then foldr max (column_ints t c) (seq t) + 1
      else (case column_ints t c of [] \<Rightarrow> 1 | i # is \<Rightarrow> foldr max is i + 1))"

text \<open>
  What the driver binds a Python value to; \<open>None\<close> where it raises for an unsupported type.
  A \<open>NaN\<close> is stored as \<open>NULL\<close>.
\<close>

fun bind :: "got \<Rightarrow> sqlval option" where
  "bind (One (CStr s)) = Some (Text s)"
| "bind (One CNaN) = Some Null"
| "bind (One (CObj s b)) = b"
| "bind (Many cs) = None"

fun bind_all :: "got list \<Rightarrow> sqlval list option" where
  "bind_all [] = Some []"
| "bind_all (g # gs) =
     (case bind g of
        None \<Rightarrow> None
      | Some v \<Rightarrow> (case bind_all gs of None \<Rightarrow> None | Some vs \<Rightarrow> Some (v # vs)))"

text \<open>
  What the driver binds a value of a request to. It raises \<open>OverflowError\<close> for an
  integer outside the signed 64-bit range, \<open>UnicodeEncodeError\<close> for a text with a
  surrogate code point, which has no UTF-8 encoding, and \<open>ProgrammingError\<close> for a list
  or a dictionary.
\<close>

fun bind_json :: "json \<Rightarrow> exn + sqlval" where
  "bind_json JNull = Inr Null"
| "bind_json (JBool b) = Inr (Integer (if b then 1 else 0))"
| "bind_json (JInt i) =
     (if - 9223372036854775808 \<le> i \<and> i \<le> 9223372036854775807 then Inr (Integer i)
      else Inl OverflowError)"
| "bind_json (JStr s) =
     (if list_ex (\<lambda>c. 55296 \<le> c \<and> c \<le> 57343) s then Inl UnicodeEncodeError
      else Inr (Text s))"
| "bind_json (JArray js) = Inl ProgrammingError"
| "bind_json (JObject kvs) = Inl ProgrammingError"

text \<open>
  \<open>INSERT INTO companies (names) VALUES (?, ...)\<close> with the given parameters. The
  statement is refused when it names a column the table does not have, and the driver
  raises when a parameter has a type it cannot bind. A column that is not named takes the
  next key when it is the integer primary key and its declared default otherwise.
\<close>

definition sql_insert ::
  "runtime \<Rightarrow> nat \<Rightarrow> table \<Rightarrow> string list \<Rightarrow> got list \<Rightarrow> exn + table" where
  "sql_insert rt idx t names params =
     (if list_ex (\<lambda>n. find_column t n = None) names then Inl OperationalError
      else (case bind_all params of
              None \<Rightarrow> Inl ProgrammingError
            | Some vs \<Rightarrow>
                Inr (t\<lparr>rows := rows t @
                         [map (\<lambda>c. (col_name c,
                                  (case map_of (zip (map sql_name names) vs) (sql_name (col_name c)) of
                                     Some v \<Rightarrow> apply_affinity rt (col_type c) v
                                   | None \<Rightarrow> if is_pk c then Integer (next_id t c)
                                             else default_value rt idx c)))
                              (cols t)],
                       seq := (case find (\<lambda>c. col_type c = INTEGER_PRIMARY_KEY_AUTOINCREMENT) (cols t) of
                                 Some c \<Rightarrow> next_id t c
                               | None \<Rightarrow> seq t)\<rparr>)))"

text \<open>\<open>DELETE FROM companies\<close>: the rows go, the \<open>AUTOINCREMENT\<close> counter stays.\<close>

definition sql_delete_all :: "table \<Rightarrow> table" where
  "sql_delete_all t = t\<lparr>rows := []\<rparr>"

text \<open>
  \<open>ALTER TABLE companies ADD COLUMN\<close>. SQLite refuses a name the table already has, a
  primary key, and, on a table that has rows, a default that is not a constant. The rows
  there are take the default of the new column.
\<close>

definition sql_add_column :: "runtime \<Rightarrow> table \<Rightarrow> coldecl \<Rightarrow> exn + table" where
  "sql_add_column rt t c =
     (if find_column t (col_name c) \<noteq> None then Inl OperationalError
      else if is_pk c then Inl OperationalError
      else if col_default c = DefaultCurrentTimestamp \<and> rows t \<noteq> [] then Inl OperationalError
      else Inr (t\<lparr>cols := cols t @ [c],
                  rows := map (\<lambda>r. r @ [(col_name c, default_value rt 0 c)]) (rows t)\<rparr>))"

text \<open>
  \<open>SELECT * FROM companies WHERE 1=1 AND n1 = ? AND ... ORDER BY id\<close>. The order of the
  keys is that of SQLite: \<open>NULL\<close> first, then the integers, then the texts.
\<close>

fun order_key :: "sqlval \<Rightarrow> nat \<times> int \<times> pystr" where
  "order_key Null = (0, 0, [])"
| "order_key (Integer i) = (1, i, [])"
| "order_key (Text s) = (2, 0, s)"

definition sql_matches :: "runtime \<Rightarrow> table \<Rightarrow> (string \<times> sqlval) list \<Rightarrow> row \<Rightarrow> bool" where
  "sql_matches rt t clauses r =
     list_all (\<lambda>(n, p). case find_column t n of
                          Some c \<Rightarrow> sql_eq rt (col_type c) (sql_value r n) p
                        | None \<Rightarrow> False) clauses"

definition sql_select :: "runtime \<Rightarrow> db \<Rightarrow> (string \<times> sqlval) list \<Rightarrow> exn + row list" where
  "sql_select rt db clauses =
     (case db of
        None \<Rightarrow> Inl OperationalError
      | Some t \<Rightarrow>
          if list_ex (\<lambda>(n, p). find_column t n = None) clauses \<or> find_column t ''id'' = None
          then Inl OperationalError
          else Inr (sort_key (\<lambda>r. order_key (sql_value r ''id''))
                      (filter (sql_matches rt t clauses) (rows t))))"

text \<open>
  \<open>UPDATE companies SET is_suitable = ? WHERE id = ?\<close> with the two parameters of the
  request. The statement is compiled first, and refused when the table or one of the two
  columns is not there; then the parameters are bound, the first one first; then the rows
  are updated.
\<close>

definition sql_update_suitable :: "runtime \<Rightarrow> db \<Rightarrow> json \<Rightarrow> json \<Rightarrow> exn + db" where
  "sql_update_suitable rt db mark_value company_id =
     (case db of
        None \<Rightarrow> Inl OperationalError
      | Some t \<Rightarrow>
          (case find_column t ''is_suitable'' of
             None \<Rightarrow> Inl OperationalError
           | Some sc \<Rightarrow>
               (case find_column t ''id'' of
                  None \<Rightarrow> Inl OperationalError
                | Some ic \<Rightarrow>
                    (case bind_json mark_value of
                       Inl e \<Rightarrow> Inl e
                     | Inr m \<Rightarrow>
                         (case bind_json company_id of
                            Inl e \<Rightarrow> Inl e
                          | Inr p \<Rightarrow>
                              Inr (Some (t\<lparr>rows :=
                                map (\<lambda>r. if sql_eq rt (col_type ic) (sql_value r ''id'') p
                                         then set_value r ''is_suitable''
                                                (apply_affinity rt (col_type sc) m)
                                         else r) (rows t)\<rparr>)))))))"

section \<open>The schema manager\<close>

definition column :: "string \<Rightarrow> ctype \<Rightarrow> cdefault \<Rightarrow> coldecl" where
  "column n ty d = \<lparr>col_name = n, col_type = ty, col_default = d\<rparr>"

definition required_columns :: "coldecl list" where
  "required_columns =
    [column ''serial_number'' TEXT NoDefault,
     column ''company_name'' TEXT NoDefault,
     column ''batch'' TEXT NoDefault,
     column ''company_type'' TEXT NoDefault,
     column ''industry'' TEXT NoDefault,
     column ''recruitment_target'' TEXT NoDefault,
     column ''positions'' TEXT NoDefault,
     column ''application_status'' TEXT NoDefault,
     column ''location'' TEXT NoDefault,
     column ''update_time'' TEXT NoDefault,
     column ''deadline'' TEXT NoDefault,
     column ''official_announcement'' TEXT NoDefault,
     column ''application_method'' TEXT NoDefault,
     column ''referral_code'' TEXT NoDefault,
     column ''is_suitable'' INTEGER (DefaultInt 0),
     column ''created_at'' TIMESTAMP DefaultCurrentTimestamp]"

text \<open>The columns of the \<open>CREATE TABLE IF NOT EXISTS companies\<close> statement.\<close>

definition create_table_columns :: "coldecl list" where
  "create_table_columns =
    [column ''id'' INTEGER_PRIMARY_KEY_AUTOINCREMENT NoDefault,
     column ''serial_number'' TEXT NoDefault,
     column ''company_name'' TEXT NoDefault,
     column ''batch'' TEXT NoDefault,
     column ''company_type'' TEXT NoDefault,
     column ''industry'' TEXT NoDefault,
     column ''recruitment_target'' TEXT NoDefault,
     column ''positions'' TEXT NoDefault,
     column ''application_status'' TEXT NoDefault,
     column ''location'' TEXT NoDefault,
     column ''update_time'' TEXT NoDefault,
     column ''deadline'' TEXT NoDefault,
     column ''official_announcement'' TEXT NoDefault,
     column ''application_method'' TEXT NoDefault,
     column ''referral_code'' TEXT NoDefault,
     column ''is_suitable'' INTEGER (DefaultInt 0),
     column ''created_at'' TIMESTAMP DefaultCurrentTimestamp]"

definition create_table_if_not_exists :: "db \<Rightarrow> db" where
  "create_table_if_not_exists db =
     (case db of
        Some t \<Rightarrow> Some t
      | None \<Rightarrow> Some \<lparr>table_name = ''companies'', cols = create_table_columns, rows = [], seq = 0\<rparr>)"

text \<open>
  The loop of \<open>init_db\<close> over \<open>required_columns\<close>: \<open>existing_columns\<close> is read once,
  before the loop; an \<open>ALTER TABLE\<close> that raises is reported and the loop goes on.
\<close>

fun add_missing_columns :: "runtime \<Rightarrow> string list \<Rightarrow> coldecl list \<Rightarrow> table \<Rightarrow> table" where
  "add_missing_columns rt existing_columns [] t = t"
| "add_missing_columns rt existing_columns (c # cs) t =
     (if col_name c \<notin> set existing_columns
      then (case sql_add_column rt t c of
              Inr t' \<Rightarrow> add_missing_columns rt existing_columns cs t'
            | Inl e \<Rightarrow> add_missing_columns rt existing_columns cs t)
      else add_missing_columns rt existing_columns cs t)"

text \<open>
  \<open>SELECT name FROM sqlite_master WHERE type='table' AND name='companies'\<close> compares the
  stored name letter by letter, so a table stored as \<open>Companies\<close> is not found, while
  \<open>CREATE TABLE IF NOT EXISTS companies\<close> finds it and does nothing.
\<close>

definition table_exists :: "db \<Rightarrow> bool" where
  "table_exists db = (case db of Some t \<Rightarrow> table_name t = ''companies'' | None \<Rightarrow> False)"

definition init_db :: "runtime \<Rightarrow> db \<Rightarrow> db" where
  "init_db rt db =
     create_table_if_not_exists
       (case db of
          Some t \<Rightarrow>
            if table_exists db
            then Some (add_missing_columns rt (map col_name (cols t)) required_columns t)
            else Some t
        | None \<Rightarrow> None)"

section \<open>The importer\<close>

text \<open>
  What is at a path: nothing, a file that neither \<open>openpyxl\<close> nor \<open>xlrd\<close> can read (with
  the text of the second exception), or a spreadsheet.
\<close>

datatype disk_file = NoFile | Corrupt pystr | Excel dataframe

text \<open>
  The messages of \<open>load_data_to_db\<close>, one constructor for each format string, with the
  values the string is filled with: the path that does not exist, the text of the read
  error, the exception that ended the import, the number of rows of the frame, and that
  number with the number of rows that failed.
\<close>

datatype message =
  FileNotFound pystr
| CannotRead pystr
| ImportFailed exn
| Imported nat
| ImportedWithFailures nat nat

text \<open>
  The loop over \<open>df.iterrows()\<close>: the index of a row is its position, from 0. An
  exception while a row is built or inserted is counted and the loop goes on.
\<close>

fun insert_rows ::
  "runtime \<Rightarrow> hdr list \<Rightarrow> (nat \<times> cell list) list \<Rightarrow> table \<Rightarrow> nat \<Rightarrow> table \<times> nat" where
  "insert_rows rt labels [] t error_count = (t, error_count)"
| "insert_rows rt labels ((idx, row) # rest) t error_count =
     (case sql_insert rt idx t insert_columns (insert_data rt labels row idx) of
        Inr t' \<Rightarrow> insert_rows rt labels rest t' error_count
      | Inl e \<Rightarrow> insert_rows rt labels rest t (error_count + 1))"

definition load_data_to_db ::
  "runtime \<Rightarrow> (pystr \<Rightarrow> disk_file) \<Rightarrow> pystr \<Rightarrow> db \<Rightarrow> (bool \<times> message) \<times> db" where
  "load_data_to_db rt fs file_path db =
     (case fs file_path of
        NoFile \<Rightarrow> ((False, FileNotFound file_path), db)
      | Corrupt e2 \<Rightarrow> ((False, CannotRead e2), db)
      | Excel df \<Rightarrow>
          (case renamed_columns rt df of
             Inl e \<Rightarrow> ((False, ImportFailed e), db)
           | Inr labels \<Rightarrow>
               (case db of
                  None \<Rightarrow> ((False, ImportFailed OperationalError), db)
                | Some t \<Rightarrow>
                    (case insert_rows rt labels
                            (zip [0 ..< length (df_data df)] (df_data df))
                            (sql_delete_all t) 0 of
                       (t', error_count) \<Rightarrow>
                         if error_count > 0
                         then ((True, ImportedWithFailures (length (df_data df)) error_count),
                               Some t')
                         else ((True, Imported (length (df_data df))), Some t')))))"

section \<open>The query layer\<close>

definition get_all_companies :: "runtime \<Rightarrow> db \<Rightarrow> exn + row list" where
  "get_all_companies rt db = sql_select rt db []"

text \<open>
  One \<open>if p and p != 'all'\<close> of \<open>api_companies\<close>: what it appends to the query and to its
  parameters.
\<close>

definition clause :: "string \<Rightarrow> pystr option \<Rightarrow> (string \<times> sqlval) list" where
  "clause n p =
     (case p of
        None \<Rightarrow> []
      | Some s \<Rightarrow> if s \<noteq> [] \<and> s \<noteq> ascii ''all'' then [(n, Text s)] else [])"

definition api_companies :: "runtime \<Rightarrow> (string \<rightharpoonup> pystr) \<Rightarrow> db \<Rightarrow> exn + row list" where
  "api_companies rt args db =
     (let industry = args ''industry'';
          company_type = args ''type'';
          location = args ''location'';
          qiyexing = args ''qiyexing'';
          jie = args ''jie''
      in sql_select rt db
           (clause ''industry'' industry @
            clause ''company_type'' company_type @
            clause ''location'' location @
            clause ''recruitment_target'' qiyexing @
            clause ''deadline'' jie))"

definition api_company :: "runtime \<Rightarrow> int \<Rightarrow> db \<Rightarrow> exn + row option" where
  "api_company rt i db =
     (case sql_select rt db [(''id'', Integer i)] of
        Inl e \<Rightarrow> Inl e
      | Inr rv \<Rightarrow>
          (case bind_json (JInt i) of
             Inl e \<Rightarrow> Inl e
           | Inr p \<Rightarrow> Inr (case rv of [] \<Rightarrow> None | r # _ \<Rightarrow> Some r)))"

section \<open>The mutation layer\<close>

text \<open>
  The body of the request is a JSON object, given by its members. \<open>data.get(key)\<close> is
  \<open>None\<close> for a key the body does not have.
\<close>

definition json_get :: "(string \<rightharpoonup> json) \<Rightarrow> string \<Rightarrow> json" where
  "json_get data k = (case data k of Some v \<Rightarrow> v | None \<Rightarrow> JNull)"

text \<open>
  The answers of \<open>api_mark\<close>: the error for a missing id, the success, and the server error
  of a request whose \<open>UPDATE\<close> raises, which \<open>api_mark\<close> does not catch.
\<close>

datatype mark_response = MissingId | Marked | MarkFailed exn

definition api_mark :: "runtime \<Rightarrow> (string \<rightharpoonup> json) \<Rightarrow> db \<Rightarrow> mark_response \<times> db" where
  "api_mark rt data db =
     (let company_id = json_get data ''id'';
          suitable = json_get data ''suitable''
      in if \<not> truthy company_id then (MissingId, db)
         else (let mark_value = (if truthy suitable then 1 else 2)
               in (case sql_update_suitable rt db (JInt mark_value) company_id of
                     Inl e \<Rightarrow> (MarkFailed e, db)
                   | Inr db' \<Rightarrow> (Marked, db'))))"

section \<open>The exporter\<close>

definition api_suitable_companies :: "runtime \<Rightarrow> db \<Rightarrow> exn + row list" where
  "api_suitable_companies rt db = sql_select rt db [(''is_suitable'', Integer 1)]"

text \<open>\<open>company.get(key, '')\<close> on the dictionary of a fetched row.\<close>

definition dict_get :: "row \<Rightarrow> string \<Rightarrow> sqlval \<Rightarrow> sqlval" where
  "dict_get company k d = (case map_of company k of Some v \<Rightarrow> v | None \<Rightarrow> d)"

definition export_headers :: "pystr list" where
  "export_headers =
    [xuhao, gongsi_mingcheng, pici, qiye_xingzhi, hangye_dalei, zhaopin_duixiang,
     zhaopin_gangwei, wangshen_zhuangtai, gongzuo_didian, jiezhi_shijian, toudi_fangshi,
     neituima_beizhu]"

definition export_row :: "row \<Rightarrow> sqlval list" where
  "export_row company =
    [dict_get company ''serial_number'' (Text []),
     dict_get company ''company_name'' (Text []),
     dict_get company ''batch'' (Text []),
     dict_get company ''company_type'' (Text []),
     dict_get company ''industry'' (Text []),
     dict_get company ''recruitment_target'' (Text []),
     dict_get company ''positions'' (Text []),
     dict_get company ''application_status'' (Text []),
     dict_get company ''location'' (Text []),
     dict_get company ''deadline'' (Text []),
     dict_get company ''application_method'' (Text []),
     dict_get company ''referral_code'' (Text [])]"

text \<open>
  The answer of \<open>api_export_suitable\<close>: the error with status 400 when there is nothing to
  export, or the rows appended to the worksheet, the header row first.
\<close>

datatype export_response = NothingToExport | Workbook "sqlval list list"

definition api_export_suitable :: "runtime \<Rightarrow> db \<Rightarrow> exn + export_response" where
  "api_export_suitable rt db =
     (case sql_select rt db [(''is_suitable'', Integer 1)] of
        Inl e \<Rightarrow> Inl e
      | Inr companies \<Rightarrow>
          if companies = [] then Inr NothingToExport
          else Inr (Workbook (map Text export_headers # map export_row companies)))"

section \<open>Reloading\<close>

text \<open>The constant \<open>EXCEL_FILE\<close>: 2026, U+5C4A, an underscore, U+79CB U+62DB U+6C47 U+603B U+8868, .xlsx\<close>

definition EXCEL_FILE :: pystr where
  "EXCEL_FILE = ascii ''2026'' @ [23626] @ ascii ''_'' @ [31179, 25307, 27719, 24635, 34920] @ ascii ''.xlsx''"

definition api_reload_data ::
  "runtime \<Rightarrow> (pystr \<Rightarrow> disk_file) \<Rightarrow> db \<Rightarrow> (bool \<times> message) \<times> db" where
  "api_reload_data rt fs db = load_data_to_db rt fs EXCEL_FILE (init_db rt db)"

section \<open>Notions of the specification\<close>

text \<open>The field of an insertion tuple that goes to a column of the \<open>INSERT\<close> statement.\<close>

definition tuple_field :: "got list \<Rightarrow> string \<Rightarrow> got option" where
  "tuple_field tuple n = map_of (zip insert_columns tuple) n"

text \<open>
  From the specification: the header that a canonical name is matched to, the exact match
  first, then the first header equal to it up to case.
\<close>

definition spec_match :: "runtime \<Rightarrow> pystr list \<Rightarrow> pystr \<Rightarrow> pystr option" where
  "spec_match rt headers canonical =
     (if canonical \<in> set headers then Some canonical
      else find (\<lambda>h. py_lower rt h = py_lower rt canonical) headers)"

text \<open>
  From the specification: a filter parameter that is absent, or the sentinel \<open>all\<close>,
  constrains nothing; here the empty text is a third such value.
\<close>

definition satisfies :: "pystr option \<Rightarrow> sqlval \<Rightarrow> bool" where
  "satisfies p v =
     (case p of None \<Rightarrow> True | Some s \<Rightarrow> s = [] \<or> s = ascii ''all'' \<or> v = Text s)"

text \<open>The stored rows with suitability 1, in the order of their ids.\<close>

definition suitable_rows :: "table \<Rightarrow> row list" where
  "suitable_rows t =
     sort_key (\<lambda>r. order_key (sql_value r ''id''))
       (filter (\<lambda>r. sql_value r ''is_suitable'' = Integer 1) (rows t))"

text \<open>The internal field that \<open>column_mapping\<close> gives to a spreadsheet header.\<close>

definition field_of :: "pystr \<Rightarrow> string" where
  "field_of h =
     (case find (\<lambda>n. (h, ascii n) \<in> set column_mapping) insert_columns of
        Some n \<Rightarrow> n
      | None \<Rightarrow> [])"

text \<open>
  When the insertion of a tuple raises: the statement names a column the table does not
  have, or a value of the tuple has a type the driver cannot bind.
\<close>

definition insert_fails :: "table \<Rightarrow> got list \<Rightarrow> bool" where
  "insert_fails t tuple =
     (list_ex (\<lambda>n. find_column t n = None) insert_columns \<or> bind_all tuple = None)"

text \<open>The number of rows of a frame whose insertion raises.\<close>

definition failed_rows :: "runtime \<Rightarrow> hdr list \<Rightarrow> table \<Rightarrow> dataframe \<Rightarrow> nat" where
  "failed_rows rt labels t df =
     length (filter (\<lambda>(idx, row). insert_fails t (insert_data rt labels row idx))
               (zip [0 ..< length (df_data df)] (df_data df)))"

text \<open>
  The Posting derived from a spreadsheet row: the row that the table the program creates
  holds for an insertion tuple, given the id it is assigned. The 14 fields of the tuple are
  stored as texts, the suitability is 0, the creation time is the time of the insertion.
\<close>

definition posting :: "runtime \<Rightarrow> int \<Rightarrow> nat \<Rightarrow> got list \<Rightarrow> row" where
  "posting rt new_id idx tuple =
     (''id'', Integer new_id) #
     map (\<lambda>(n, g). (n, apply_affinity rt TEXT (case bind g of Some v \<Rightarrow> v | None \<Rightarrow> Null)))
         (zip insert_columns tuple) @
     [(''is_suitable'', Integer 0),
      (''created_at'', apply_affinity rt TIMESTAMP (Text (current_timestamp rt idx)))]"

definition id_column :: coldecl where
  "id_column = column ''id'' INTEGER_PRIMARY_KEY_AUTOINCREMENT NoDefault"

text \<open>No id in the table is beyond the \<open>AUTOINCREMENT\<close> counter.\<close>

definition ids_bounded :: "table \<Rightarrow> bool" where
  "ids_bounded t = (\<forall>i \<in> set (column_ints t id_column). i \<le> seq t)"

text \<open>The table, if there is one, has the columns of the \<open>CREATE TABLE\<close> statement.\<close>

definition canonical :: "db \<Rightarrow> bool" where
  "canonical db = (case db of None \<Rightarrow> True | Some t \<Rightarrow> cols t = create_table_columns)"

text \<open>From the specification: the suitability of every stored row is 0, 1 or 2.\<close>

definition suitability_ok :: "db \<Rightarrow> bool" where
  "suitability_ok db =
     (case db of
        None \<Rightarrow> True
      | Some t \<Rightarrow> list_all (\<lambda>r. sql_value r ''is_suitable'' = Integer 0 \<or>
                              sql_value r ''is_suitable'' = Integer 1 \<or>
                              sql_value r ''is_suitable'' = Integer 2) (rows t))"

text \<open>
  The states of the database that the operations of the program reach from a new database
  file, with any run-time environment, files and requests. The queries change nothing.
\<close>

inductive reachable :: "db \<Rightarrow> bool" where
  start: "reachable None"
| init: "reachable db \<Longrightarrow> reachable (init_db rt db)"
| load: "reachable db \<Longrightarrow> reachable (snd (load_data_to_db rt fs path db))"
| mark: "reachable db \<Longrightarrow> reachable (snd (api_mark rt data db))"

text \<open>
  When \<open>ALTER TABLE ADD COLUMN\<close> is refused, and the columns of \<open>required_columns\<close> that
  a table has not.
\<close>

definition refused :: "table \<Rightarrow> coldecl \<Rightarrow> bool" where
  "refused t c =
     (find_column t (col_name c) \<noteq> None \<or> is_pk c \<or>
      (col_default c = DefaultCurrentTimestamp \<and> rows t \<noteq> []))"

definition missing_columns :: "table \<Rightarrow> coldecl list" where
  "missing_columns t = [c \<leftarrow> required_columns. find_column t (col_name c) = None]"

section \<open>A run-time environment and data for the examples\<close>

text \<open>
  Lower-casing of the ASCII letters, which is \<open>str.lower\<close> on every text of ASCII and
  Chinese characters; the reading of a text of decimal digits as an integer; a fixed clock.
  No example depends on the \<open>str()\<close> of a \<open>Series\<close>.
\<close>

definition ascii_lower :: "pystr \<Rightarrow> pystr" where
  "ascii_lower s = map (\<lambda>c. if 65 \<le> c \<and> c \<le> 90 then c + 32 else c) s"

fun read_digits :: "int \<Rightarrow> pystr \<Rightarrow> int option" where
  "read_digits acc [] = Some acc"
| "read_digits acc (c # cs) =
     (if 48 \<le> c \<and> c \<le> 57 then read_digits (10 * acc + int (c - 48)) cs else None)"

definition test_runtime :: runtime where
  "test_runtime =
     \<lparr>py_lower = ascii_lower,
      series_str = (\<lambda>cs. ascii ''Series''),
      sqlite_numeric = (\<lambda>s. if s = [] then None else read_digits 0 s),
      current_timestamp = (\<lambda>idx. ascii ''2026-01-01 00:00:00'')\<rparr>"

definition sheet_A :: dataframe where
  "sheet_A =
     \<lparr>df_columns = [HStr xuhao, HStr gongsi_mingcheng, HStr hangye_dalei],
      df_data = [[CObj (ascii ''7'') (Some (Integer 7)), CStr (ascii ''Acme''), CStr (ascii ''Tech'')]]\<rparr>"

definition sheet_B :: dataframe where
  "sheet_B =
     \<lparr>df_columns = [HStr gongsi_mingcheng, HStr hangye_dalei],
      df_data = [[CStr (ascii ''Bolt''), CStr (ascii ''Tech'')],
                 [CStr (ascii ''Core''), CNaN]]\<rparr>"

text \<open>A sheet whose second row holds a value of a type the driver cannot bind.\<close>

definition sheet_C :: dataframe where
  "sheet_C =
     \<lparr>df_columns = [HStr gongsi_mingcheng],
      df_data = [[CStr (ascii ''Acme'')], [CObj (ascii ''5'') None]]\<rparr>"

definition test_fs :: "pystr \<Rightarrow> disk_file" where
  "test_fs path =
     (if path = ascii ''a.xlsx'' then Excel sheet_A
      else if path = ascii ''b.xlsx'' then Excel sheet_B
      else if path = ascii ''c.xlsx'' then Excel sheet_C
      else if path = ascii ''bad.xlsx'' then Corrupt (ascii ''not a spreadsheet'')
      else NoFile)"

text \<open>The table of a new database, and the table after \<open>sheet_A\<close> has been imported into it.\<close>

definition empty_table :: table where
  "empty_table = \<lparr>table_name = ''companies'', cols = create_table_columns, rows = [], seq = 0\<rparr>"

definition posting_acme :: row where
  "posting_acme =
    [(''id'', Integer 1), (''serial_number'', Text (ascii ''7'')),
     (''company_name'', Text (ascii ''Acme'')), (''batch'', Text []), (''company_type'', Text []),
     (''industry'', Text (ascii ''Tech'')), (''recruitment_target'', Text []),
     (''positions'', Text []), (''application_status'', Text []), (''location'', Text []),
     (''update_time'', Text []), (''deadline'', Text []), (''official_announcement'', Text []),
     (''application_method'', Text []), (''referral_code'', Text []),
     (''is_suitable'', Integer 0), (''created_at'', Text (ascii ''2026-01-01 00:00:00''))]"

definition table_A :: table where
  "table_A = \<lparr>table_name = ''companies'', cols = create_table_columns, rows = [posting_acme], seq = 1\<rparr>"

text \<open>The table after \<open>sheet_B\<close> has been imported in its turn.\<close>

definition posting_bolt :: row where
  "posting_bolt =
    [(''id'', Integer 2), (''serial_number'', Text (ascii ''1'')),
     (''company_name'', Text (ascii ''Bolt'')), (''batch'', Text []), (''company_type'', Text []),
     (''industry'', Text (ascii ''Tech'')), (''recruitment_target'', Text []),
     (''positions'', Text []), (''application_status'', Text []), (''location'', Text []),
     (''update_time'', Text []), (''deadline'', Text []), (''official_announcement'', Text []),
     (''application_method'', Text []), (''referral_code'', Text []),
     (''is_suitable'', Integer 0), (''created_at'', Text (ascii ''2026-01-01 00:00:00''))]"

definition posting_core :: row where
  "posting_core =
    [(''id'', Integer 3), (''serial_number'', Text (ascii ''2'')),
     (''company_name'', Text (ascii ''Core'')), (''batch'', Text []), (''company_type'', Text []),
     (''industry'', Null), (''recruitment_target'', Text []),
     (''positions'', Text []), (''application_status'', Text []), (''location'', Text []),
     (''update_time'', Text []), (''deadline'', Text []), (''official_announcement'', Text []),
     (''application_method'', Text []), (''referral_code'', Text []),
     (''is_suitable'', Integer 0), (''created_at'', Text (ascii ''2026-01-01 00:00:00''))]"

definition example_table :: table where
  "example_table = \<lparr>table_name = ''companies'', cols = create_table_columns, rows = [posting_bolt, posting_core], seq = 3\<rparr>"

text \<open>The same table once the first of its rows has been marked suitable.\<close>

definition posting_bolt_marked :: row where
  "posting_bolt_marked = set_value posting_bolt ''is_suitable'' (Integer 1)"

definition marked_table :: table where
  "marked_table = example_table\<lparr>rows := [posting_bolt_marked, posting_core]\<rparr>"

text \<open>
  A sheet whose header has a space before the name, and a sheet whose header is the name
  of a column of the table.
\<close>

definition sheet_D :: dataframe where
  "sheet_D = \<lparr>df_columns = [HStr (32 # gongsi_mingcheng)], df_data = [[CStr (ascii ''Acme'')]]\<rparr>"

definition sheet_E :: dataframe where
  "sheet_E = \<lparr>df_columns = [HStr (ascii ''location'')], df_data = [[CStr (ascii ''Paris'')]]\<rparr>"

text \<open>
  Tables of earlier versions: one without the column \<open>id\<close>, one without \<open>created_at\<close>,
  and one with three columns only, stored as \<open>companies\<close> and as \<open>Companies\<close>, with
  what \<open>init_db\<close> makes of the former.
\<close>

definition no_id_table :: table where
  "no_id_table = \<lparr>table_name = ''companies'', cols = required_columns, rows = [tl posting_acme], seq = 0\<rparr>"

definition old_table :: table where
  "old_table = \<lparr>table_name = ''companies'', cols = butlast create_table_columns, rows = [butlast posting_acme], seq = 1\<rparr>"

definition legacy_table :: table where
  "legacy_table =
     \<lparr>table_name = ''companies'',
      cols = [column ''id'' INTEGER_PRIMARY_KEY_AUTOINCREMENT NoDefault,
              column ''company_name'' TEXT NoDefault,
              column ''created_at'' TIMESTAMP DefaultCurrentTimestamp],
      rows = [[(''id'', Integer 1), (''company_name'', Text (ascii ''Acme'')),
               (''created_at'', Text (ascii ''2025-01-01 00:00:00''))]],
      seq = 1\<rparr>"

definition capital_table :: table where
  "capital_table = legacy_table\<lparr>table_name := ''Companies''\<rparr>"

definition healed_table :: table where
  "healed_table =
     \<lparr>table_name = ''companies'',
      cols = [column ''id'' INTEGER_PRIMARY_KEY_AUTOINCREMENT NoDefault,
              column ''company_name'' TEXT NoDefault,
              column ''created_at'' TIMESTAMP DefaultCurrentTimestamp,
              column ''serial_number'' TEXT NoDefault,
              column ''batch'' TEXT NoDefault,
              column ''company_type'' TEXT NoDefault,
              column ''industry'' TEXT NoDefault,
              column ''recruitment_target'' TEXT NoDefault,
              column ''positions'' TEXT NoDefault,
              column ''application_status'' TEXT NoDefault,
              column ''location'' TEXT NoDefault,
              column ''update_time'' TEXT NoDefault,
              column ''deadline'' TEXT NoDefault,
              column ''official_announcement'' TEXT NoDefault,
              column ''application_method'' TEXT NoDefault,
              column ''referral_code'' TEXT NoDefault,
              column ''is_suitable'' INTEGER (DefaultInt 0)],
      rows = [[(''id'', Integer 1), (''company_name'', Text (ascii ''Acme'')),
               (''created_at'', Text (ascii ''2025-01-01 00:00:00'')),
               (''serial_number'', Null), (''batch'', Null), (''company_type'', Null),
               (''industry'', Null), (''recruitment_target'', Null), (''positions'', Null),
               (''application_status'', Null), (''location'', Null), (''update_time'', Null),
               (''deadline'', Null), (''official_announcement'', Null),
               (''application_method'', Null), (''referral_code'', Null),
               (''is_suitable'', Integer 0)]],
      seq = 1\<rparr>"

section \<open>Evaluation\<close>

lemmas header_defs =
  xuhao_def gongsi_mingcheng_def pici_def qiye_xingzhi_def hangye_dalei_def
  zhaopin_duixiang_def zhaopin_gangwei_def wangshen_zhuangtai_def gongzuo_didian_def
  gengxin_shijian_def jiezhi_shijian_def guanfang_gonggao_def toudi_fangshi_def
  neituima_beizhu_def

text \<open>The names of the program's own columns are in lower case already.\<close>

lemma sql_name_canonical [simp]:
  "sql_name ''id'' = ''id''"
  "sql_name ''serial_number'' = ''serial_number''"
  "sql_name ''company_name'' = ''company_name''"
  "sql_name ''batch'' = ''batch''"
  "sql_name ''company_type'' = ''company_type''"
  "sql_name ''industry'' = ''industry''"
  "sql_name ''recruitment_target'' = ''recruitment_target''"
  "sql_name ''positions'' = ''positions''"
  "sql_name ''application_status'' = ''application_status''"
  "sql_name ''location'' = ''location''"
  "sql_name ''update_time'' = ''update_time''"
  "sql_name ''deadline'' = ''deadline''"
  "sql_name ''official_announcement'' = ''official_announcement''"
  "sql_name ''application_method'' = ''application_method''"
  "sql_name ''referral_code'' = ''referral_code''"
  "sql_name ''is_suitable'' = ''is_suitable''"
  "sql_name ''created_at'' = ''created_at''"
  by (simp_all add: sql_name_def sql_fold_def)

lemma find_column_canonical:
  assumes "cols t = create_table_columns"
  shows "find_column t ''id'' = Some (column ''id'' INTEGER_PRIMARY_KEY_AUTOINCREMENT NoDefault)"
    and "find_column t ''is_suitable'' = Some (column ''is_suitable'' INTEGER (DefaultInt 0))"
    and "find_column t ''industry'' = Some (column ''industry'' TEXT NoDefault)"
    and "find_column t ''company_type'' = Some (column ''company_type'' TEXT NoDefault)"
    and "find_column t ''location'' = Some (column ''location'' TEXT NoDefault)"
    and "find_column t ''recruitment_target'' = Some (column ''recruitment_target'' TEXT NoDefault)"
    and "find_column t ''deadline'' = Some (column ''deadline'' TEXT NoDefault)"
  using assms
  by (simp_all add: find_column_def create_table_columns_def column_def)

lemma affinity_Integer [simp]:
  "ty \<noteq> TEXT \<Longrightarrow> apply_affinity rt ty (Integer i) = Integer i"
  by (cases ty) (simp_all add: apply_affinity_def)

lemma affinity_TEXT_Text [simp]: "apply_affinity rt TEXT (Text s) = Text s"
  by (simp add: apply_affinity_def)

lemma affinity_Null_iff [simp]: "apply_affinity rt ty p = Null \<longleftrightarrow> p = Null"
  by (cases ty; cases p) (simp_all add: apply_affinity_def split: option.splits)

lemma sql_eq_iff: "p \<noteq> Null \<Longrightarrow> sql_eq rt ty v p \<longleftrightarrow> v = apply_affinity rt ty p"
  by (auto simp: sql_eq_def)

lemma example_values:
  "sql_value posting_bolt ''id'' = Integer 2"
  "sql_value posting_core ''id'' = Integer 3"
  "sql_value posting_bolt ''industry'' = Text (ascii ''Tech'')"
  "sql_value posting_core ''industry'' = Null"
  "sql_value posting_bolt ''company_type'' = Text []"
  "sql_value posting_core ''company_type'' = Text []"
  "sql_value posting_bolt ''location'' = Text []"
  "sql_value posting_core ''location'' = Text []"
  "sql_value posting_bolt ''recruitment_target'' = Text []"
  "sql_value posting_core ''recruitment_target'' = Text []"
  "sql_value posting_bolt ''deadline'' = Text []"
  "sql_value posting_core ''deadline'' = Text []"
  "sql_value posting_bolt ''is_suitable'' = Integer 0"
  "sql_value posting_core ''is_suitable'' = Integer 0"
  "sql_value posting_bolt_marked ''is_suitable'' = Integer 1"
  "sql_value posting_bolt_marked ''id'' = Integer 2"
  by (simp_all add: posting_bolt_def posting_core_def posting_bolt_marked_def sql_value_def
      set_value_def)

section \<open>The insertion tuple\<close>

lemma row_get_absent:
  "HStr key \<notin> set labels \<Longrightarrow> row_get labels row key d = One d"
proof -
  assume a: "HStr key \<notin> set labels"
  have "filter (\<lambda>(l, v). l = HStr key) (zip labels row) = []"
    using a by (auto simp: filter_empty_conv dest: set_zip_leftD)
  then show ?thesis by (simp add: row_get_def)
qed

lemma in_insert_columns:
  "n \<in> set insert_columns \<longleftrightarrow>
     n = ''serial_number'' \<or> n = ''company_name'' \<or> n = ''batch'' \<or> n = ''company_type'' \<or>
     n = ''industry'' \<or> n = ''recruitment_target'' \<or> n = ''positions'' \<or>
     n = ''application_status'' \<or> n = ''location'' \<or> n = ''update_time'' \<or> n = ''deadline'' \<or>
     n = ''official_announcement'' \<or> n = ''application_method'' \<or> n = ''referral_code''"
  by (auto simp: insert_columns_def)

text \<open>The tuple field by field: the first through \<open>str()\<close>, the others as \<open>row.get\<close> gives them.\<close>

lemma tuple_field_insert_data:
  "n \<in> set insert_columns \<Longrightarrow>
   tuple_field (insert_data rt labels row idx) n =
     Some (if n = ''serial_number''
           then One (CStr (py_str rt (row_get labels row (ascii n) (CStr (show_nat (idx + 1))))))
           else row_get labels row (ascii n) (CStr []))"
  unfolding in_insert_columns
  by (elim disjE) (simp_all add: tuple_field_def insert_columns_def insert_data_def)

text \<open>
  Claim C7. For every row being imported, a field of the insertion tuple whose column the
  renamed frame does not have is the empty string, except \<open>serial_number\<close>, which is then
  the 1-based index of the row as a decimal string (the index \<open>idx\<close> of \<open>iterrows\<close>
  counts from 0).
\<close>

theorem absent_column_default:
  assumes "n \<in> set insert_columns" and "HStr (ascii n) \<notin> set labels"
  shows "tuple_field (insert_data rt labels row idx) n =
           Some (One (CStr (if n = ''serial_number'' then show_nat (idx + 1) else [])))"
proof (cases "n = ''serial_number''")
  case True
  with assms show ?thesis by (simp add: tuple_field_insert_data row_get_absent)
next
  case False
  with assms show ?thesis by (simp add: tuple_field_insert_data row_get_absent)
qed

theorem absent_column_default_witness:
  "tuple_field (insert_data test_runtime [HStr (ascii ''company_name''), HStr (ascii ''industry'')]
      [CStr (ascii ''Bolt''), CStr (ascii ''Tech'')] 1) ''location'' = Some (One (CStr [])) \<and>
   tuple_field (insert_data test_runtime [HStr (ascii ''company_name''), HStr (ascii ''industry'')]
      [CStr (ascii ''Bolt''), CStr (ascii ''Tech'')] 1) ''serial_number'' = Some (One (CStr (ascii ''2'')))"
  using absent_column_default [of "''location''" "[HStr (ascii ''company_name''), HStr (ascii ''industry'')]"
          test_runtime "[CStr (ascii ''Bolt''), CStr (ascii ''Tech'')]" 1]
        absent_column_default [of "''serial_number''" "[HStr (ascii ''company_name''), HStr (ascii ''industry'')]"
          test_runtime "[CStr (ascii ''Bolt''), CStr (ascii ''Tech'')]" 1]
  by (simp add: insert_columns_def ascii_def show_nat.simps)

section \<open>Marking\<close>

text \<open>
  Claim C10. \<open>api_mark\<close> rejects every falsy id, not only an absent or null one: a request
  whose id is 0, the empty string (or \<open>false\<close>) is answered with the missing-id error, and
  the store is left as it was.
\<close>

theorem falsy_id_rejected:
  "api_mark rt (data(''id'' \<mapsto> JInt 0)) db = (MissingId, db) \<and>
   api_mark rt (data(''id'' \<mapsto> JStr [])) db = (MissingId, db) \<and>
   api_mark rt (data(''id'' \<mapsto> JBool False)) db = (MissingId, db)"
  by (simp add: api_mark_def json_get_def)

theorem falsy_id_rejected_witness:
  "api_mark test_runtime [''suitable'' \<mapsto> JBool True, ''id'' \<mapsto> JInt 0] (init_db test_runtime None) =
     (MissingId, init_db test_runtime None) \<and>
   api_mark test_runtime [''suitable'' \<mapsto> JBool True, ''id'' \<mapsto> JStr []] (init_db test_runtime None) =
     (MissingId, init_db test_runtime None)"
  using falsy_id_rejected [of test_runtime "[''suitable'' \<mapsto> JBool True]" "init_db test_runtime None"]
  by simp

lemma bind_json_Null: "truthy j \<Longrightarrow> bind_json j = Inr p \<Longrightarrow> p \<noteq> Null"
  by (cases j) (auto split: if_splits)

lemma api_mark_falsy:
  "\<not> truthy (json_get data ''id'') \<Longrightarrow> api_mark rt data db = (MissingId, db)"
  by (simp add: api_mark_def)

lemma api_mark_canonical:
  assumes "truthy (json_get data ''id'')" and "cols t = create_table_columns"
  shows "api_mark rt data (Some t) =
     (case bind_json (json_get data ''id'') of
        Inl e \<Rightarrow> (MarkFailed e, Some t)
      | Inr p \<Rightarrow>
          (Marked,
           Some (t\<lparr>rows :=
             map (\<lambda>r. if sql_value r ''id'' = apply_affinity rt INTEGER_PRIMARY_KEY_AUTOINCREMENT p
                      then set_value r ''is_suitable''
                             (Integer (if truthy (json_get data ''suitable'') then 1 else 2))
                      else r) (rows t)\<rparr>)))"
proof (cases "bind_json (json_get data ''id'')")
  case (Inl e)
  with assms show ?thesis
    by (cases "truthy (json_get data ''suitable'')")
       (simp_all add: api_mark_def sql_update_suitable_def find_column_canonical)
next
  case (Inr p)
  with assms(1) have "p \<noteq> Null" by (auto dest: bind_json_Null)
  with assms Inr show ?thesis
    by (cases "truthy (json_get data ''suitable'')")
       (simp_all add: api_mark_def sql_update_suitable_def find_column_canonical sql_eq_iff
          column_def affinity_Integer)
qed






lemma mark_bolt:
  "api_mark test_runtime [''id'' \<mapsto> JInt 2, ''suitable'' \<mapsto> JBool True] (Some example_table) =
     (Marked, Some marked_table)"
  using api_mark_canonical [of "[''id'' \<mapsto> JInt 2, ''suitable'' \<mapsto> JBool True]" example_table test_runtime]
  by (simp add: example_table_def marked_table_def posting_bolt_marked_def json_get_def example_values
      affinity_Integer)






section \<open>Listing\<close>

lemma clause_matches:
  "find_column t n = Some c \<Longrightarrow> col_type c = TEXT \<Longrightarrow>
   sql_matches rt t (clause n p @ cl) r \<longleftrightarrow> satisfies p (sql_value r n) \<and> sql_matches rt t cl r"
  by (auto simp: sql_matches_def clause_def satisfies_def sql_eq_iff split: option.splits)

lemma clause_known:
  "find_column t n \<noteq> None \<Longrightarrow>
   list_ex (\<lambda>(n, p). find_column t n = None) (clause n p @ cl) \<longleftrightarrow>
   list_ex (\<lambda>(n, p). find_column t n = None) cl"
  by (auto simp: clause_def split: option.splits)

lemma api_companies_canonical:
  assumes "cols t = create_table_columns"
  shows "\<exists>result. api_companies rt args (Some t) = Inr result \<and>
           sorted (map (\<lambda>r. order_key (sql_value r ''id'')) result) \<and>
           result = sort_key (\<lambda>r. order_key (sql_value r ''id''))
             (filter (\<lambda>r. satisfies (args ''industry'') (sql_value r ''industry'') \<and>
                           satisfies (args ''type'') (sql_value r ''company_type'') \<and>
                           satisfies (args ''location'') (sql_value r ''location'') \<and>
                           satisfies (args ''qiyexing'') (sql_value r ''recruitment_target'') \<and>
                           satisfies (args ''jie'') (sql_value r ''deadline'')) (rows t))"
proof -
  note fc = find_column_canonical [OF assms]
  have m: "sql_matches rt t
             (clause ''industry'' (args ''industry'') @ clause ''company_type'' (args ''type'') @
              clause ''location'' (args ''location'') @ clause ''recruitment_target'' (args ''qiyexing'') @
              clause ''deadline'' (args ''jie'')) =
           (\<lambda>r. satisfies (args ''industry'') (sql_value r ''industry'') \<and>
                           satisfies (args ''type'') (sql_value r ''company_type'') \<and>
                           satisfies (args ''location'') (sql_value r ''location'') \<and>
                           satisfies (args ''qiyexing'') (sql_value r ''recruitment_target'') \<and>
                           satisfies (args ''jie'') (sql_value r ''deadline''))"
    using clause_matches [of t _ _ rt _ "[]"]
    by (simp add: fun_eq_iff clause_matches fc column_def sql_matches_def [of rt t "[]"])
  have k: "\<not> list_ex (\<lambda>(n, p). find_column t n = None)
             (clause ''industry'' (args ''industry'') @ clause ''company_type'' (args ''type'') @
              clause ''location'' (args ''location'') @ clause ''recruitment_target'' (args ''qiyexing'') @
              clause ''deadline'' (args ''jie''))"
    using clause_known [of t _ _ "[]"] by (simp add: clause_known fc)
  show ?thesis
    unfolding api_companies_def Let_def sql_select_def
    using k m by (simp add: fc)
qed

text \<open>
  Claim C4, amended. On the table the program creates, for every stored collection and
  every combination of the five filter parameters, \<open>api_companies\<close> returns exactly the
  rows that satisfy the conjunction of the equalities for the parameters that are present,
  not empty and not \<open>all\<close>, in ascending order of id; a parameter that is absent, empty
  or \<open>all\<close> constrains nothing.
\<close>

theorem list_postings:
  assumes "cols t = create_table_columns"
  shows "\<exists>result. api_companies rt args (Some t) = Inr result \<and>
           sorted (map (\<lambda>r. order_key (sql_value r ''id'')) result) \<and>
           result = sort_key (\<lambda>r. order_key (sql_value r ''id''))
             (filter (\<lambda>r. satisfies (args ''industry'') (sql_value r ''industry'') \<and>
                           satisfies (args ''type'') (sql_value r ''company_type'') \<and>
                           satisfies (args ''location'') (sql_value r ''location'') \<and>
                           satisfies (args ''qiyexing'') (sql_value r ''recruitment_target'') \<and>
                           satisfies (args ''jie'') (sql_value r ''deadline'')) (rows t))"
  using assms by (rule api_companies_canonical)

theorem list_postings_witness:
  "api_companies test_runtime [''industry'' \<mapsto> ascii ''Tech''] (Some example_table) = Inr [posting_bolt] \<and>
   api_companies test_runtime [''industry'' \<mapsto> ascii ''all''] (Some example_table) =
     Inr [posting_bolt, posting_core]"
  using list_postings [of example_table test_runtime "[''industry'' \<mapsto> ascii ''Tech'']"]
        list_postings [of example_table test_runtime "[''industry'' \<mapsto> ascii ''all'']"]
  by (simp add: example_table_def satisfies_def example_values ascii_def)

text \<open>
  Claim C4 as stated fails: the parameter \<open>industry\<close> is present, is not \<open>all\<close>, and is
  the empty text, and a row whose industry is not the empty text is returned.
\<close>

theorem empty_filter_counterexample:
  "api_companies test_runtime [''industry'' \<mapsto> []] (Some example_table) = Inr [posting_bolt, posting_core] \<and>
   sql_value posting_bolt ''industry'' = Text (ascii ''Tech'') \<and> ascii ''Tech'' \<noteq> []"
  using api_companies_canonical [of example_table test_runtime "[''industry'' \<mapsto> []]"]
  by (simp add: example_table_def satisfies_def example_values ascii_def)

section \<open>Exporting\<close>

lemma export_headers_filter:
  "export_headers =
     filter (\<lambda>h. h \<noteq> gengxin_shijian \<and> h \<noteq> guanfang_gonggao) (map fst column_mapping)"
  by (simp add: export_headers_def column_mapping_def header_defs)

lemma export_row_fields:
  "export_row r = map (\<lambda>h. dict_get r (field_of h) (Text [])) export_headers"
  by (simp add: export_row_def export_headers_def field_of_def column_mapping_def header_defs
      insert_columns_def ascii_def)

text \<open>
  Claim C6, amended. On the table the program creates, \<open>api_export_suitable\<close> answers
  with the nothing-to-export error when no row has suitability 1; otherwise, for N such
  rows, the worksheet has exactly N + 1 rows: the header row, which is 12 of the 14
  spreadsheet headers of \<open>column_mapping\<close> in their order, the two left out being those of
  \<open>update_time\<close> and \<open>official_announcement\<close>, followed by one row for each suitable
  row in the order of the ids, each holding the fields of the headers in the same order.
\<close>

theorem export_suitable:
  assumes "cols t = create_table_columns"
  shows "api_export_suitable rt (Some t) =
           Inr (if suitable_rows t = [] then NothingToExport
                else Workbook (map Text export_headers # map export_row (suitable_rows t))) \<and>
         length (map Text export_headers # map export_row (suitable_rows t)) =
           length (suitable_rows t) + 1 \<and>
         sorted (map (\<lambda>r. order_key (sql_value r ''id'')) (suitable_rows t)) \<and>
         length export_headers = 12 \<and>
         export_headers =
           filter (\<lambda>h. h \<noteq> gengxin_shijian \<and> h \<noteq> guanfang_gonggao) (map fst column_mapping) \<and>
         (\<forall>r. export_row r = map (\<lambda>h. dict_get r (field_of h) (Text [])) export_headers)"
proof -
  note fc = find_column_canonical [OF assms]
  have "sql_matches rt t [(''is_suitable'', Integer 1)] =
          (\<lambda>r. sql_value r ''is_suitable'' = Integer 1)"
    by (simp add: fun_eq_iff sql_matches_def fc sql_eq_iff column_def)
  then have "sql_select rt (Some t) [(''is_suitable'', Integer 1)] = Inr (suitable_rows t)"
    by (simp add: sql_select_def fc suitable_rows_def)
  then have "api_export_suitable rt (Some t) =
           Inr (if suitable_rows t = [] then NothingToExport
                else Workbook (map Text export_headers # map export_row (suitable_rows t)))"
    by (simp add: api_export_suitable_def)
  moreover have "sorted (map (\<lambda>r. order_key (sql_value r ''id'')) (suitable_rows t))"
    by (simp add: suitable_rows_def)
  moreover have "length export_headers = 12" by (simp add: export_headers_def)
  ultimately show ?thesis
    using export_headers_filter export_row_fields by simp
qed

lemma export_row_bolt:
  "export_row posting_bolt_marked =
     [Text (ascii ''1''), Text (ascii ''Bolt''), Text [], Text [], Text (ascii ''Tech''), Text [],
      Text [], Text [], Text [], Text [], Text [], Text []]"
  by (simp add: export_row_def dict_get_def posting_bolt_def posting_bolt_marked_def set_value_def)

theorem export_suitable_witness:
  "api_export_suitable test_runtime (Some example_table) = Inr NothingToExport \<and>
   api_export_suitable test_runtime (Some marked_table) =
     Inr (Workbook [map Text export_headers,
        [Text (ascii ''1''), Text (ascii ''Bolt''), Text [], Text [], Text (ascii ''Tech''), Text [],
         Text [], Text [], Text [], Text [], Text [], Text []]])"
  using export_suitable [of example_table test_runtime, THEN conjunct1]
        export_suitable [of marked_table test_runtime, THEN conjunct1]
  by (simp add: example_table_def marked_table_def suitable_rows_def example_values export_row_bolt)

text \<open>
  Claim C6 as stated fails: the header of \<open>official_announcement\<close> is one of the 14, is
  not that of \<open>update_time\<close>, and is not in the header row.
\<close>

theorem export_omits_announcement_counterexample:
  "guanfang_gonggao \<in> fst ` set column_mapping \<and> guanfang_gonggao \<noteq> gengxin_shijian \<and>
   guanfang_gonggao \<notin> set export_headers"
  by (simp add: export_headers_def column_mapping_def header_defs)

section \<open>Importing\<close>

lemma sql_insert_fails:
  "insert_fails t tuple \<Longrightarrow> \<exists>e. sql_insert rt idx t insert_columns tuple = Inl e"
  by (auto simp: insert_fails_def sql_insert_def split: option.splits)

lemma sql_insert_succeeds:
  "\<not> insert_fails t tuple \<Longrightarrow> \<exists>t'. sql_insert rt idx t insert_columns tuple = Inr t' \<and> cols t' = cols t"
  by (auto simp: insert_fails_def sql_insert_def split: option.splits)

lemma insert_fails_cols: "cols t' = cols t \<Longrightarrow> insert_fails t' tuple = insert_fails t tuple"
  by (simp add: insert_fails_def find_column_def)

lemma insert_rows_count:
  "insert_rows rt labels xs t k = (t', k') \<Longrightarrow>
   cols t' = cols t \<and>
   k' = k + length (filter (\<lambda>(idx, row). insert_fails t (insert_data rt labels row idx)) xs)"
proof (induction xs arbitrary: t k)
  case Nil
  then show ?case by simp
next
  case (Cons x xs)
  obtain idx row where x: "x = (idx, row)" by (cases x)
  show ?case
  proof (cases "insert_fails t (insert_data rt labels row idx)")
    case True
    then obtain e where "sql_insert rt idx t insert_columns (insert_data rt labels row idx) = Inl e"
      using sql_insert_fails by blast
    with Cons.prems x have "insert_rows rt labels xs t (k + 1) = (t', k')" by simp
    from Cons.IH [OF this] True x show ?thesis by simp
  next
    case False
    then obtain t1 where t1: "sql_insert rt idx t insert_columns (insert_data rt labels row idx) = Inr t1"
      and c1: "cols t1 = cols t"
      using sql_insert_succeeds by blast
    with Cons.prems x have "insert_rows rt labels xs t1 k = (t', k')" by simp
    from Cons.IH [OF this] False x c1 show ?thesis
      by (simp add: insert_fails_cols [OF c1])
  qed
qed

lemma excel_columns_of_Inl:
  "(\<exists>e. excel_columns_of hs = Inl e) \<longleftrightarrow> HOther \<in> set hs"
proof (induction hs)
  case Nil
  then show ?case by simp
next
  case (Cons h hs)
  then show ?case by (cases h) (auto split: sum.splits)
qed

lemma renamed_columns_Inl:
  "(\<exists>e. renamed_columns rt df = Inl e) \<longleftrightarrow> HOther \<in> set (df_columns df)"
  using excel_columns_of_Inl [of "df_columns df"]
  by (auto simp: renamed_columns_def Let_def split: sum.splits)

lemma load_on_table:
  assumes "fs path = Excel df" and "renamed_columns rt df = Inr labels"
  shows "fst (load_data_to_db rt fs path (Some t)) =
           (True, if failed_rows rt labels t df = 0 then Imported (length (df_data df))
                  else ImportedWithFailures (length (df_data df)) (failed_rows rt labels t df))"
proof -
  obtain t' k where r: "insert_rows rt labels (zip [0 ..< length (df_data df)] (df_data df))
                          (sql_delete_all t) 0 = (t', k)"
    by (cases "insert_rows rt labels (zip [0 ..< length (df_data df)] (df_data df)) (sql_delete_all t) 0")
  have c: "cols (sql_delete_all t) = cols t" by (simp add: sql_delete_all_def)
  from insert_rows_count [OF r] have "k = failed_rows rt labels t df"
    by (simp add: failed_rows_def insert_fails_cols [OF c])
  with r assms show ?thesis by (simp add: load_data_to_db_def)
qed

lemma insert_columns_found:
  "cols t = create_table_columns \<Longrightarrow> \<not> list_ex (\<lambda>n. find_column t n = None) insert_columns"
  by (simp add: insert_columns_def find_column_def create_table_columns_def column_def)

lemma sql_insert_canonical_aux:
  assumes "cols t = create_table_columns"
    and "bind_all [g1, g2, g3, g4, g5, g6, g7, g8, g9, g10, g11, g12, g13, g14] = Some vs"
  shows "sql_insert rt idx t insert_columns [g1, g2, g3, g4, g5, g6, g7, g8, g9, g10, g11, g12, g13, g14] =
           Inr (t\<lparr>rows := rows t @ [posting rt (next_id t id_column) idx
                                       [g1, g2, g3, g4, g5, g6, g7, g8, g9, g10, g11, g12, g13, g14]],
                  seq := next_id t id_column\<rparr>)"
proof -
  from assms(2) obtain v1 v2 v3 v4 v5 v6 v7 v8 v9 v10 v11 v12 v13 v14 where
    b: "bind g1 = Some v1" "bind g2 = Some v2" "bind g3 = Some v3" "bind g4 = Some v4"
       "bind g5 = Some v5" "bind g6 = Some v6" "bind g7 = Some v7" "bind g8 = Some v8"
       "bind g9 = Some v9" "bind g10 = Some v10" "bind g11 = Some v11" "bind g12 = Some v12"
       "bind g13 = Some v13" "bind g14 = Some v14"
    and vs: "vs = [v1, v2, v3, v4, v5, v6, v7, v8, v9, v10, v11, v12, v13, v14]"
    by (auto split: option.splits)
  have nf: "\<not> list_ex (\<lambda>n. find_column t n = None) insert_columns"
    using assms(1) by (rule insert_columns_found)
  have ba: "bind_all [g1, g2, g3, g4, g5, g6, g7, g8, g9, g10, g11, g12, g13, g14] = Some vs"
    by (rule assms(2))
  show ?thesis
    unfolding sql_insert_def
    apply (simp only: nf ba if_False option.case)
    apply (simp add: vs b assms(1) create_table_columns_def column_def insert_columns_def
        posting_def is_pk_def default_value_def id_column_def)
    done
qed

lemma sql_insert_canonical:
  assumes "cols t = create_table_columns"
    and "\<not> insert_fails t (insert_data rt labels row idx)"
  shows "sql_insert rt idx t insert_columns (insert_data rt labels row idx) =
           Inr (t\<lparr>rows := rows t @ [posting rt (next_id t id_column) idx (insert_data rt labels row idx)],
                  seq := next_id t id_column\<rparr>)"
proof -
  from assms(2) obtain vs where "bind_all (insert_data rt labels row idx) = Some vs"
    by (auto simp: insert_fails_def)
  then show ?thesis
    unfolding insert_data_def by (rule sql_insert_canonical_aux [OF assms(1)])
qed

lemma foldr_max_bounded: "\<forall>i \<in> set xs. i \<le> (s::int) \<Longrightarrow> foldr max xs s = s"
  by (induction xs) auto

lemma next_id_bounded: "ids_bounded t \<Longrightarrow> next_id t id_column = seq t + 1"
  by (simp add: next_id_def id_column_def [symmetric] ids_bounded_def foldr_max_bounded)
     (simp add: id_column_def column_def)

lemma in_column_ints:
  "i \<in> set (column_ints t c) \<longleftrightarrow> (\<exists>r \<in> set (rows t). sql_value r (col_name c) = Integer i)"
proof -
  have "\<And>r. (i \<in> set (case sql_value r (col_name c) of Integer i \<Rightarrow> [i] | _ \<Rightarrow> [])) =
          (sql_value r (col_name c) = Integer i)"
    by (auto split: sqlval.splits)
  then show ?thesis by (simp add: column_ints_def)
qed

lemma ids_bounded_iff:
  "ids_bounded t \<longleftrightarrow> (\<forall>r \<in> set (rows t). \<forall>i. sql_value r ''id'' = Integer i \<longrightarrow> i \<le> seq t)"
  unfolding ids_bounded_def by (auto simp: in_column_ints id_column_def column_def)

lemma posting_id [simp]: "sql_value (posting rt k idx tuple) ''id'' = Integer k"
  by (simp add: posting_def sql_value_def)

lemma insert_columns_not_suitable:
  "n \<in> set insert_columns \<Longrightarrow> sql_name n \<noteq> ''is_suitable''"
  unfolding in_insert_columns by (elim disjE) simp_all

lemma find_zip_none:
  "(\<And>k. k \<in> set ks \<Longrightarrow> \<not> P k) \<Longrightarrow> find (\<lambda>(k, v). P k) (map (\<lambda>(n, g). (n, f g)) (zip ks gs) @ rest) =
     find (\<lambda>(k, v). P k) rest"
proof (induction ks arbitrary: gs)
  case Nil
  then show ?case by simp
next
  case (Cons k ks)
  then show ?case by (cases gs) auto
qed

lemma posting_suitable [simp]: "sql_value (posting rt k idx tuple) ''is_suitable'' = Integer 0"
proof -
  have "find (\<lambda>(k, v). sql_name k = ''is_suitable'')
          (map (\<lambda>(n, g). (n, apply_affinity rt TEXT (case bind g of Some v \<Rightarrow> v | None \<Rightarrow> Null)))
             (zip insert_columns tuple) @
           [(''is_suitable'', Integer 0),
            (''created_at'', apply_affinity rt TIMESTAMP (Text (current_timestamp rt idx)))]) =
        Some (''is_suitable'', Integer 0)"
    by (subst find_zip_none) (simp_all add: insert_columns_not_suitable)
  then show ?thesis by (simp add: posting_def sql_value_def)
qed

lemma insert_step:
  assumes "cols t = create_table_columns" and "ids_bounded t"
    and "\<not> insert_fails t (insert_data rt labels row idx)"
  shows "sql_insert rt idx t insert_columns (insert_data rt labels row idx) =
           Inr (t\<lparr>rows := rows t @ [posting rt (seq t + 1) idx (insert_data rt labels row idx)],
                  seq := seq t + 1\<rparr>)"
  using sql_insert_canonical [OF assms(1) assms(3)] next_id_bounded [OF assms(2)] by simp

lemma ids_bounded_step:
  "ids_bounded t \<Longrightarrow> ids_bounded (t\<lparr>rows := rows t @ [posting rt (seq t + 1) idx tuple], seq := seq t + 1\<rparr>)"
  by (fastforce simp: ids_bounded_iff)

text \<open>What the loop keeps, whether or not rows fail.\<close>

lemma insert_rows_invariant:
  assumes "cols t = create_table_columns" and "ids_bounded t"
    and "insert_rows rt labels xs t k = (t', k')"
  shows "cols t' = create_table_columns \<and> ids_bounded t' \<and>
         (\<forall>r \<in> set (rows t'). r \<in> set (rows t) \<or> (\<exists>j idx tuple. r = posting rt j idx tuple))"
  using assms
proof (induction xs arbitrary: t k)
  case Nil
  then show ?case by simp
next
  case (Cons x xs)
  obtain idx row where x: "x = (idx, row)" by (cases x)
  show ?case
  proof (cases "insert_fails t (insert_data rt labels row idx)")
    case True
    then obtain e where "sql_insert rt idx t insert_columns (insert_data rt labels row idx) = Inl e"
      using sql_insert_fails by blast
    with Cons.prems x have "insert_rows rt labels xs t (k + 1) = (t', k')" by simp
    from Cons.IH [OF Cons.prems(1) Cons.prems(2) this] show ?thesis .
  next
    case False
    let ?t1 = "t\<lparr>rows := rows t @ [posting rt (seq t + 1) idx (insert_data rt labels row idx)],
                  seq := seq t + 1\<rparr>"
    from insert_step [OF Cons.prems(1) Cons.prems(2) False] Cons.prems(3) x
    have r: "insert_rows rt labels xs ?t1 k = (t', k')" by simp
    have c1: "cols ?t1 = create_table_columns" using Cons.prems(1) by simp
    have b1: "ids_bounded ?t1" using Cons.prems(2) by (rule ids_bounded_step)
    from Cons.IH [OF c1 b1 r] show ?thesis by auto
  qed
qed

text \<open>What the loop stores when no row fails: one posting for each row, in order.\<close>

lemma insert_rows_all:
  assumes "cols t = create_table_columns" and "ids_bounded t"
    and "insert_rows rt labels (zip [a ..< a + length d] d) t k = (t', k)"
  shows "rows t' = rows t @
           map (\<lambda>(idx, row). posting rt (seq t + 1 + int idx - int a) idx (insert_data rt labels row idx))
             (zip [a ..< a + length d] d)"
  using assms
proof (induction d arbitrary: a t)
  case Nil
  then show ?case by simp
next
  case (Cons row d)
  have z: "zip [a ..< a + length (row # d)] (row # d) = (a, row) # zip [Suc a ..< Suc a + length d] d"
    by (simp add: upt_conv_Cons del: upt_Suc)
  have nf: "\<not> insert_fails t (insert_data rt labels row a)"
  proof
    assume f: "insert_fails t (insert_data rt labels row a)"
    from insert_rows_count [OF Cons.prems(3)] z f show False by simp
  qed
  let ?t1 = "t\<lparr>rows := rows t @ [posting rt (seq t + 1) a (insert_data rt labels row a)],
                seq := seq t + 1\<rparr>"
  from insert_step [OF Cons.prems(1) Cons.prems(2) nf] Cons.prems(3) z
  have r: "insert_rows rt labels (zip [Suc a ..< Suc a + length d] d) ?t1 k = (t', k)" by simp
  have c1: "cols ?t1 = create_table_columns" using Cons.prems(1) by simp
  have b1: "ids_bounded ?t1" using Cons.prems(2) by (rule ids_bounded_step)
  have "rows t' = rows ?t1 @
           map (\<lambda>(idx, row). posting rt (seq ?t1 + 1 + int idx - int (Suc a)) idx (insert_data rt labels row idx))
             (zip [Suc a ..< Suc a + length d] d)"
    by (rule Cons.IH [OF c1 b1 r])
  then show ?case unfolding z by (auto simp del: upt_Suc simp add: algebra_simps)
qed

lemma load_success:
  assumes "load_data_to_db rt fs path (Some t) = ((True, m), db')"
  shows "\<exists>df labels t' k. fs path = Excel df \<and> renamed_columns rt df = Inr labels \<and>
           insert_rows rt labels (zip [0 ..< length (df_data df)] (df_data df)) (sql_delete_all t) 0 = (t', k) \<and>
           db' = Some t' \<and>
           m = (if k > 0 then ImportedWithFailures (length (df_data df)) k else Imported (length (df_data df)))"
  using assms
  by (auto simp: load_data_to_db_def split: disk_file.splits sum.splits prod.splits if_splits)

lemma insert_rows_seq:
  assumes "cols t = create_table_columns" and "ids_bounded t"
    and "insert_rows rt labels xs t k = (t', k)"
  shows "seq t' = seq t + int (length xs)"
  using assms
proof (induction xs arbitrary: t)
  case Nil
  then show ?case by simp
next
  case (Cons x xs)
  obtain idx row where x: "x = (idx, row)" by (cases x)
  have nf: "\<not> insert_fails t (insert_data rt labels row idx)"
  proof
    assume f: "insert_fails t (insert_data rt labels row idx)"
    from insert_rows_count [OF Cons.prems(3)] x f show False by simp
  qed
  let ?t1 = "t\<lparr>rows := rows t @ [posting rt (seq t + 1) idx (insert_data rt labels row idx)],
                seq := seq t + 1\<rparr>"
  from insert_step [OF Cons.prems(1) Cons.prems(2) nf] Cons.prems(3) x
  have r: "insert_rows rt labels xs ?t1 k = (t', k)" by simp
  have c1: "cols ?t1 = create_table_columns" using Cons.prems(1) by simp
  have b1: "ids_bounded ?t1" using Cons.prems(2) by (rule ids_bounded_step)
  from Cons.IH [OF c1 b1 r] show ?case by simp
qed

lemma insert_rows_name:
  "insert_rows rt labels xs t k = (t', k') \<Longrightarrow> table_name t' = table_name t"
proof (induction xs arbitrary: t k)
  case Nil
  then show ?case by simp
next
  case (Cons x xs)
  obtain idx row where x: "x = (idx, row)" by (cases x)
  show ?case
  proof (cases "sql_insert rt idx t insert_columns (insert_data rt labels row idx)")
    case (Inl e)
    with Cons.prems x have "insert_rows rt labels xs t (k + 1) = (t', k')" by simp
    then show ?thesis by (rule Cons.IH)
  next
    case (Inr t1)
    then have n: "table_name t1 = table_name t"
      by (auto simp: sql_insert_def split: if_splits option.splits)
    from Inr Cons.prems x have "insert_rows rt labels xs t1 k = (t', k')" by simp
    then have "table_name t' = table_name t1" by (rule Cons.IH)
    with n show ?thesis by simp
  qed
qed

text \<open>The import of a sheet none of whose rows fails, into the table the program creates.\<close>

lemma load_all_rows:
  assumes "cols t = create_table_columns" and "fs path = Excel df"
    and "renamed_columns rt df = Inr labels" and "failed_rows rt labels t df = 0"
  shows "load_data_to_db rt fs path (Some t) =
           ((True, Imported (length (df_data df))),
            Some \<lparr>table_name = table_name t, cols = create_table_columns,
                  rows = map (\<lambda>(idx, row). posting rt (seq t + 1 + int idx) idx (insert_data rt labels row idx))
                           (zip [0 ..< length (df_data df)] (df_data df)),
                  seq = seq t + int (length (df_data df))\<rparr>)"
proof -
  obtain t' k where r: "insert_rows rt labels (zip [0 ..< length (df_data df)] (df_data df))
                          (sql_delete_all t) 0 = (t', k)"
    by (cases "insert_rows rt labels (zip [0 ..< length (df_data df)] (df_data df)) (sql_delete_all t) 0")
  have c: "cols (sql_delete_all t) = create_table_columns"
    using assms(1) by (simp add: sql_delete_all_def)
  have b: "ids_bounded (sql_delete_all t)"
    by (simp add: ids_bounded_def sql_delete_all_def column_ints_def)
  have "\<And>tuple. insert_fails (sql_delete_all t) tuple = insert_fails t tuple"
    by (simp add: insert_fails_def find_column_def sql_delete_all_def)
  with insert_rows_count [OF r] assms(4) have k: "k = 0"
    by (simp add: failed_rows_def)
  from insert_rows_invariant [OF c b r] have c': "cols t' = create_table_columns" by simp
  from insert_rows_all [OF c b, of rt labels 0 "df_data df" 0 t'] r k
  have rw: "rows t' = map (\<lambda>(idx, row). posting rt (seq t + 1 + int idx) idx (insert_data rt labels row idx))
                       (zip [0 ..< length (df_data df)] (df_data df))"
    by (simp add: sql_delete_all_def)
  from insert_rows_seq [OF c b, of rt labels _ 0 t'] r k
  have sq: "seq t' = seq t + int (length (df_data df))"
    by (simp add: sql_delete_all_def)
  have "t' = \<lparr>table_name = table_name t, cols = create_table_columns,
                  rows = map (\<lambda>(idx, row). posting rt (seq t + 1 + int idx) idx (insert_data rt labels row idx))
                           (zip [0 ..< length (df_data df)] (df_data df)),
                  seq = seq t + int (length (df_data df))\<rparr>"
    using c' rw sq insert_rows_name [OF r] by (cases t') (simp add: sql_delete_all_def)
  with r k assms(2) assms(3) show ?thesis by (simp add: load_data_to_db_def)
qed

lemma excel_A: "excel_columns_of (df_columns sheet_A) = Inr [xuhao, gongsi_mingcheng, hangye_dalei]"
  by (simp add: sheet_A_def strip_def py_isspace_def header_defs)

lemma mapped_A:
  "map_columns test_runtime [xuhao, gongsi_mingcheng, hangye_dalei] column_mapping Map.empty =
     [xuhao \<mapsto> ascii ''serial_number'', gongsi_mingcheng \<mapsto> ascii ''company_name'',
      hangye_dalei \<mapsto> ascii ''industry'']"
  by (simp add: column_mapping_def header_defs test_runtime_def ascii_lower_def)

lemma renamed_sheet_A:
  "renamed_columns test_runtime sheet_A =
     Inr [HStr (ascii ''serial_number''), HStr (ascii ''company_name''), HStr (ascii ''industry'')]"
  by (simp add: renamed_columns_def excel_A mapped_A rename_def)
     (simp add: sheet_A_def header_defs)

lemma excel_B: "excel_columns_of (df_columns sheet_B) = Inr [gongsi_mingcheng, hangye_dalei]"
  by (simp add: sheet_B_def strip_def py_isspace_def header_defs)

lemma mapped_B:
  "map_columns test_runtime [gongsi_mingcheng, hangye_dalei] column_mapping Map.empty =
     [gongsi_mingcheng \<mapsto> ascii ''company_name'', hangye_dalei \<mapsto> ascii ''industry'']"
  by (simp add: column_mapping_def header_defs test_runtime_def ascii_lower_def)

lemma renamed_sheet_B:
  "renamed_columns test_runtime sheet_B =
     Inr [HStr (ascii ''company_name''), HStr (ascii ''industry'')]"
  by (simp add: renamed_columns_def excel_B mapped_B rename_def)
     (simp add: sheet_B_def header_defs)

lemma tuple_A0:
  "insert_data test_runtime
     [HStr (ascii ''serial_number''), HStr (ascii ''company_name''), HStr (ascii ''industry'')]
     [CObj (ascii ''7'') (Some (Integer 7)), CStr (ascii ''Acme''), CStr (ascii ''Tech'')] 0 =
   [One (CStr (ascii ''7'')), One (CStr (ascii ''Acme'')), One (CStr []), One (CStr []),
    One (CStr (ascii ''Tech'')), One (CStr []), One (CStr []), One (CStr []), One (CStr []),
    One (CStr []), One (CStr []), One (CStr []), One (CStr []), One (CStr [])]"
  by (simp add: insert_data_def row_get_def ascii_def)

lemma tuple_B0:
  "insert_data test_runtime [HStr (ascii ''company_name''), HStr (ascii ''industry'')]
     [CStr (ascii ''Bolt''), CStr (ascii ''Tech'')] 0 =
   [One (CStr (ascii ''1'')), One (CStr (ascii ''Bolt'')), One (CStr []), One (CStr []),
    One (CStr (ascii ''Tech'')), One (CStr []), One (CStr []), One (CStr []), One (CStr []),
    One (CStr []), One (CStr []), One (CStr []), One (CStr []), One (CStr [])]"
  by (simp add: insert_data_def row_get_def ascii_def show_nat.simps)

lemma tuple_B1:
  "insert_data test_runtime [HStr (ascii ''company_name''), HStr (ascii ''industry'')]
     [CStr (ascii ''Core''), CNaN] (Suc 0) =
   [One (CStr (ascii ''2'')), One (CStr (ascii ''Core'')), One (CStr []), One (CStr []),
    One CNaN, One (CStr []), One (CStr []), One (CStr []), One (CStr []),
    One (CStr []), One (CStr []), One (CStr []), One (CStr []), One (CStr [])]"
  by (simp add: insert_data_def row_get_def ascii_def show_nat.simps)

lemma test_timestamp:
  "apply_affinity test_runtime TIMESTAMP (Text (current_timestamp test_runtime idx)) =
     Text (ascii ''2026-01-01 00:00:00'')"
  by (simp add: apply_affinity_def test_runtime_def ascii_def)

lemma postings_evaluated:
  "posting test_runtime 1 0
     [One (CStr (ascii ''7'')), One (CStr (ascii ''Acme'')), One (CStr []), One (CStr []),
      One (CStr (ascii ''Tech'')), One (CStr []), One (CStr []), One (CStr []), One (CStr []),
      One (CStr []), One (CStr []), One (CStr []), One (CStr []), One (CStr [])] = posting_acme"
  "posting test_runtime 2 0
     [One (CStr (ascii ''1'')), One (CStr (ascii ''Bolt'')), One (CStr []), One (CStr []),
      One (CStr (ascii ''Tech'')), One (CStr []), One (CStr []), One (CStr []), One (CStr []),
      One (CStr []), One (CStr []), One (CStr []), One (CStr []), One (CStr [])] = posting_bolt"
  "posting test_runtime 3 (Suc 0)
     [One (CStr (ascii ''2'')), One (CStr (ascii ''Core'')), One (CStr []), One (CStr []),
      One CNaN, One (CStr []), One (CStr []), One (CStr []), One (CStr []),
      One (CStr []), One (CStr []), One (CStr []), One (CStr []), One (CStr [])] = posting_core"
  by (simp_all add: posting_def insert_columns_def test_timestamp posting_acme_def posting_bolt_def
      posting_core_def)

lemma load_A:
  "load_data_to_db test_runtime test_fs (ascii ''a.xlsx'') (Some empty_table) =
     ((True, Imported 1), Some table_A)"
proof -
  have c: "cols empty_table = create_table_columns" by (simp add: empty_table_def)
  have f: "test_fs (ascii ''a.xlsx'') = Excel sheet_A" by (simp add: test_fs_def)
  have d: "df_data sheet_A = [[CObj (ascii ''7'') (Some (Integer 7)), CStr (ascii ''Acme''), CStr (ascii ''Tech'')]]"
    by (simp add: sheet_A_def)
  have z: "failed_rows test_runtime
             [HStr (ascii ''serial_number''), HStr (ascii ''company_name''), HStr (ascii ''industry'')]
             empty_table sheet_A = 0"
    using insert_columns_found [OF c]
    by (simp add: failed_rows_def d insert_fails_def tuple_A0)
  show ?thesis
    using load_all_rows [of empty_table test_fs "ascii ''a.xlsx''" sheet_A test_runtime
        "[HStr (ascii ''serial_number''), HStr (ascii ''company_name''), HStr (ascii ''industry'')]"]
      c f renamed_sheet_A z
    by (simp add: d tuple_A0 postings_evaluated table_A_def empty_table_def)
qed

lemma load_B:
  "load_data_to_db test_runtime test_fs (ascii ''b.xlsx'') (Some table_A) =
     ((True, Imported 2), Some example_table)"
proof -
  have c: "cols table_A = create_table_columns" by (simp add: table_A_def)
  have f: "test_fs (ascii ''b.xlsx'') = Excel sheet_B" by (simp add: test_fs_def ascii_def)
  have d: "df_data sheet_B = [[CStr (ascii ''Bolt''), CStr (ascii ''Tech'')], [CStr (ascii ''Core''), CNaN]]"
    by (simp add: sheet_B_def)
  have u: "[0 ..< 2] = [0, Suc 0]" by (simp add: upt_conv_Cons)
  have z: "failed_rows test_runtime [HStr (ascii ''company_name''), HStr (ascii ''industry'')]
             table_A sheet_B = 0"
    using insert_columns_found [OF c]
    by (simp add: failed_rows_def d u insert_fails_def tuple_B0 tuple_B1)
  show ?thesis
    using load_all_rows [of table_A test_fs "ascii ''b.xlsx''" sheet_B test_runtime
        "[HStr (ascii ''company_name''), HStr (ascii ''industry'')]"]
      c f renamed_sheet_B z
    by (simp add: d u tuple_B0 tuple_B1 postings_evaluated table_A_def example_table_def)
qed

lemma excel_C: "excel_columns_of (df_columns sheet_C) = Inr [gongsi_mingcheng]"
  by (simp add: sheet_C_def strip_def py_isspace_def header_defs)

lemma mapped_C:
  "map_columns test_runtime [gongsi_mingcheng] column_mapping Map.empty =
     [gongsi_mingcheng \<mapsto> ascii ''company_name'']"
  by (simp add: column_mapping_def header_defs test_runtime_def ascii_lower_def)

lemma renamed_sheet_C:
  "renamed_columns test_runtime sheet_C = Inr [HStr (ascii ''company_name'')]"
  by (simp add: renamed_columns_def excel_C mapped_C rename_def)
     (simp add: sheet_C_def header_defs)

lemma failed_rows_C:
  "failed_rows test_runtime [HStr (ascii ''company_name'')] table_A sheet_C = 1"
proof -
  have c: "cols table_A = create_table_columns" by (simp add: table_A_def)
  have u: "[0 ..< 2] = [0, Suc 0]" by (simp add: upt_conv_Cons)
  show ?thesis
    using insert_columns_found [OF c]
    by (simp add: failed_rows_def sheet_C_def u insert_fails_def insert_data_def row_get_def ascii_def)
qed

text \<open>
  Claim C3. \<open>load_data_to_db\<close> returns \<open>False\<close> exactly when the path does not exist,
  when neither engine can read the file, or when an exception ends the procedure, which is
  when a header of the sheet is not text or the database has no table; otherwise it returns
  \<open>True\<close> with a message that states the number of rows of the sheet, alone when no row
  failed, and with the number of failed rows when some did.
\<close>

theorem import_result:
  "(\<not> fst (fst (load_data_to_db rt fs path db))) =
     (fs path = NoFile \<or> (\<exists>e. fs path = Corrupt e) \<or>
      (\<exists>df. fs path = Excel df \<and> (HOther \<in> set (df_columns df) \<or> db = None))) \<and>
   (\<forall>df t. fs path = Excel df \<and> HOther \<notin> set (df_columns df) \<and> db = Some t \<longrightarrow>
      (\<exists>labels. renamed_columns rt df = Inr labels \<and>
         fst (load_data_to_db rt fs path db) =
           (True, if failed_rows rt labels t df = 0 then Imported (length (df_data df))
                  else ImportedWithFailures (length (df_data df)) (failed_rows rt labels t df))))"
proof (intro conjI allI impI)
  show "(\<not> fst (fst (load_data_to_db rt fs path db))) =
     (fs path = NoFile \<or> (\<exists>e. fs path = Corrupt e) \<or>
      (\<exists>df. fs path = Excel df \<and> (HOther \<in> set (df_columns df) \<or> db = None)))"
  proof (cases "fs path")
    case NoFile
    then show ?thesis by (simp add: load_data_to_db_def)
  next
    case (Corrupt e)
    then show ?thesis by (simp add: load_data_to_db_def)
  next
    case (Excel df)
    show ?thesis
    proof (cases "renamed_columns rt df")
      case (Inl e)
      with renamed_columns_Inl [of rt df] have "HOther \<in> set (df_columns df)" by auto
      with Excel Inl show ?thesis by (simp add: load_data_to_db_def)
    next
      case (Inr labels)
      with renamed_columns_Inl [of rt df] have h: "HOther \<notin> set (df_columns df)" by auto
      show ?thesis
      proof (cases db)
        case None
        with Excel Inr show ?thesis by (simp add: load_data_to_db_def)
      next
        case (Some t)
        with load_on_table [of fs path df rt labels t] Excel Inr h show ?thesis by simp
      qed
    qed
  qed
next
  fix df t
  assume a: "fs path = Excel df \<and> HOther \<notin> set (df_columns df) \<and> db = Some t"
  with renamed_columns_Inl [of rt df] obtain labels where l: "renamed_columns rt df = Inr labels"
    by (cases "renamed_columns rt df") auto
  with load_on_table [of fs path df rt labels t] a
  show "\<exists>labels. renamed_columns rt df = Inr labels \<and>
         fst (load_data_to_db rt fs path db) =
           (True, if failed_rows rt labels t df = 0 then Imported (length (df_data df))
                  else ImportedWithFailures (length (df_data df)) (failed_rows rt labels t df))"
    by simp
qed

theorem import_result_witness:
  "fst (load_data_to_db test_runtime test_fs (ascii ''b.xlsx'') (Some table_A)) = (True, Imported 2) \<and>
   fst (load_data_to_db test_runtime test_fs (ascii ''c.xlsx'') (Some table_A)) =
     (True, ImportedWithFailures 2 1) \<and>
   \<not> fst (fst (load_data_to_db test_runtime test_fs (ascii ''none.xlsx'') (Some table_A))) \<and>
   \<not> fst (fst (load_data_to_db test_runtime test_fs (ascii ''bad.xlsx'') (Some table_A))) \<and>
   \<not> fst (fst (load_data_to_db test_runtime test_fs (ascii ''b.xlsx'') None))"
proof -
  have f: "test_fs (ascii ''b.xlsx'') = Excel sheet_B" "test_fs (ascii ''c.xlsx'') = Excel sheet_C"
    "test_fs (ascii ''none.xlsx'') = NoFile"
    "test_fs (ascii ''bad.xlsx'') = Corrupt (ascii ''not a spreadsheet'')"
    by (simp_all add: test_fs_def ascii_def)
  have h: "HOther \<notin> set (df_columns sheet_C)" by (simp add: sheet_C_def)
  have d: "length (df_data sheet_C) = 2" by (simp add: sheet_C_def)
  show ?thesis
    using import_result [of test_runtime test_fs "ascii ''c.xlsx''" "Some table_A"]
      import_result [of test_runtime test_fs "ascii ''none.xlsx''" "Some table_A"]
      import_result [of test_runtime test_fs "ascii ''bad.xlsx''" "Some table_A"]
      import_result [of test_runtime test_fs "ascii ''b.xlsx''" None]
    by (simp add: f load_B h d renamed_sheet_C failed_rows_C)
qed



section \<open>The suitability of the stored rows\<close>

lemma add_missing_canonical:
  "add_missing_columns rt (map col_name create_table_columns) required_columns t = t"
  by (simp add: required_columns_def create_table_columns_def column_def)

lemma init_db_canonical:
  "canonical db \<Longrightarrow> init_db rt db = (case db of None \<Rightarrow> Some empty_table | Some t \<Rightarrow> Some t)"
  by (cases db)
     (simp_all add: canonical_def init_db_def create_table_if_not_exists_def empty_table_def
      add_missing_canonical table_exists_def)

lemma sql_value_set_value:
  "sql_value r n \<noteq> Null \<Longrightarrow> sql_value (set_value r n x) n = x"
proof (induction r)
  case Nil
  then show ?case by (simp add: sql_value_def)
next
  case (Cons a r)
  obtain k v where a: "a = (k, v)" by (cases a)
  show ?case
  proof (cases "sql_name k = sql_name n")
    case True
    with a show ?thesis by (simp add: sql_value_def set_value_def)
  next
    case False
    with a Cons show ?thesis by (simp add: sql_value_def set_value_def)
  qed
qed

lemma load_keeps:
  assumes "canonical db" and "suitability_ok db"
  shows "canonical (snd (load_data_to_db rt fs path db)) \<and>
         suitability_ok (snd (load_data_to_db rt fs path db))"
proof (cases "fst (fst (load_data_to_db rt fs path db))")
  case False
  then have "snd (load_data_to_db rt fs path db) = db"
    by (auto simp: load_data_to_db_def split: disk_file.splits sum.splits option.splits prod.splits if_splits)
  with assms show ?thesis by simp
next
  case True
  then obtain t where db: "db = Some t"
    by (cases db) (auto simp: load_data_to_db_def split: disk_file.splits sum.splits)
  obtain m db' where l: "load_data_to_db rt fs path (Some t) = ((True, m), db')"
    using True db by (cases "load_data_to_db rt fs path (Some t)") auto
  from load_success [OF l] obtain df :: dataframe and labels t' k where
    r: "insert_rows rt labels (zip [0 ..< length (df_data df)] (df_data df)) (sql_delete_all t) 0 = (t', k)"
    and db': "db' = Some t'" by blast
  have c: "cols (sql_delete_all t) = create_table_columns"
    using assms(1) db by (simp add: canonical_def sql_delete_all_def)
  have b: "ids_bounded (sql_delete_all t)"
    by (simp add: ids_bounded_def sql_delete_all_def column_ints_def)
  from insert_rows_invariant [OF c b r]
  have "cols t' = create_table_columns"
    and "\<forall>r \<in> set (rows t'). \<exists>j idx tuple. r = posting rt j idx tuple"
    by (simp_all add: sql_delete_all_def)
  then have "canonical (Some t')" and "suitability_ok (Some t')"
    by (auto simp: canonical_def suitability_ok_def list_all_iff)
  with l db db' show ?thesis by simp
qed

lemma mark_keeps:
  assumes "canonical db" and "suitability_ok db"
  shows "canonical (snd (api_mark rt data db)) \<and> suitability_ok (snd (api_mark rt data db))"
proof (cases db)
  case None
  then show ?thesis
    by (simp add: api_mark_def sql_update_suitable_def canonical_def suitability_ok_def Let_def)
next
  case (Some t)
  with assms(1) have c: "cols t = create_table_columns" by (simp add: canonical_def)
  show ?thesis
  proof (cases "truthy (json_get data ''id'')")
    case False
    with api_mark_falsy [of data rt db] assms show ?thesis by simp
  next
    case True
    from assms(2) Some have ok: "\<forall>r \<in> set (rows t). sql_value r ''is_suitable'' = Integer 0 \<or>
        sql_value r ''is_suitable'' = Integer 1 \<or> sql_value r ''is_suitable'' = Integer 2"
      by (simp add: suitability_ok_def list_all_iff)
    have "\<And>r v. r \<in> set (rows t) \<Longrightarrow> sql_value (set_value r ''is_suitable'' v) ''is_suitable'' = v"
      using ok by (intro sql_value_set_value) auto
    with api_mark_canonical [of data t rt] True c Some ok show ?thesis
      by (auto simp: canonical_def suitability_ok_def list_all_iff split: sum.splits)
  qed
qed

lemma reachable_invariant: "reachable db \<Longrightarrow> canonical db \<and> suitability_ok db"
proof (induction rule: reachable.induct)
  case start
  then show ?case by (simp add: canonical_def suitability_ok_def)
next
  case (init d rt)
  then have c: "canonical d" and s: "suitability_ok d" by simp_all
  show ?case
  proof (cases d)
    case None
    then show ?thesis
      by (simp add: init_db_canonical canonical_def suitability_ok_def empty_table_def)
  next
    case (Some t)
    with c s show ?thesis by (simp add: init_db_canonical canonical_def)
  qed
next
  case (load d rt fs path)
  then show ?case using load_keeps by blast
next
  case (mark d rt data)
  then show ?case using mark_keeps by blast
qed

lemma load_inserts_unmarked:
  assumes "canonical db" and "load_data_to_db rt fs path db = ((True, m), Some t')"
  shows "\<forall>r \<in> set (rows t'). sql_value r ''is_suitable'' = Integer 0"
proof -
  from assms(2) obtain t where db: "db = Some t"
    by (cases db) (auto simp: load_data_to_db_def split: disk_file.splits sum.splits)
  from load_success [OF assms(2) [unfolded db]] obtain df :: dataframe and labels k where
    r: "insert_rows rt labels (zip [0 ..< length (df_data df)] (df_data df)) (sql_delete_all t) 0 = (t', k)"
    by auto
  have c: "cols (sql_delete_all t) = create_table_columns"
    using assms(1) db by (simp add: canonical_def sql_delete_all_def)
  have b: "ids_bounded (sql_delete_all t)"
    by (simp add: ids_bounded_def sql_delete_all_def column_ints_def)
  from insert_rows_invariant [OF c b r]
  have "\<forall>r \<in> set (rows t'). \<exists>j idx tuple. r = posting rt j idx tuple"
    by (simp add: sql_delete_all_def)
  then show ?thesis by auto
qed

lemma mark_writes:
  assumes "cols t = create_table_columns" and "suitability_ok (Some t)"
    and "snd (api_mark rt data (Some t)) = Some t'"
  shows "length (rows t') = length (rows t) \<and>
         (\<forall>i < length (rows t). rows t' ! i = rows t ! i \<or>
            sql_value (rows t' ! i) ''is_suitable'' = Integer 1 \<or>
            sql_value (rows t' ! i) ''is_suitable'' = Integer 2)"
proof (cases "truthy (json_get data ''id'')")
  case False
  with api_mark_falsy [of data rt "Some t"] assms(3) show ?thesis by simp
next
  case True
  from assms(2) have ok: "\<forall>r \<in> set (rows t). sql_value r ''is_suitable'' \<noteq> Null"
    by (auto simp: suitability_ok_def list_all_iff)
  have "\<And>i v. i < length (rows t) \<Longrightarrow>
          sql_value (set_value (rows t ! i) ''is_suitable'' v) ''is_suitable'' = v"
    using ok by (intro sql_value_set_value) auto
  with api_mark_canonical [of data t rt] True assms(1) assms(3) show ?thesis
    by (auto split: sum.splits)
qed

text \<open>
  Claim C9. In every state that the operations of the program reach from a new database,
  the suitability of every stored row is 0, 1 or 2: an import that succeeds leaves only
  rows of suitability 0, and \<open>api_mark\<close> leaves each row as it was or with suitability 1
  or 2.
\<close>

theorem suitability_invariant:
  assumes "reachable db"
  shows "suitability_ok db \<and>
         (\<forall>rt fs path m t'. load_data_to_db rt fs path db = ((True, m), Some t') \<longrightarrow>
            (\<forall>r \<in> set (rows t'). sql_value r ''is_suitable'' = Integer 0)) \<and>
         (\<forall>rt data t t'. db = Some t \<and> snd (api_mark rt data db) = Some t' \<longrightarrow>
            length (rows t') = length (rows t) \<and>
            (\<forall>i < length (rows t). rows t' ! i = rows t ! i \<or>
               sql_value (rows t' ! i) ''is_suitable'' = Integer 1 \<or>
               sql_value (rows t' ! i) ''is_suitable'' = Integer 2))"
proof -
  from reachable_invariant [OF assms] have c: "canonical db" and s: "suitability_ok db"
    by simp_all
  have "\<And>rt fs path m t'. load_data_to_db rt fs path db = ((True, m), Some t') \<Longrightarrow>
          \<forall>r \<in> set (rows t'). sql_value r ''is_suitable'' = Integer 0"
    using c by (rule load_inserts_unmarked)
  moreover have "\<And>rt data t t'. db = Some t \<and> snd (api_mark rt data db) = Some t' \<Longrightarrow>
          length (rows t') = length (rows t) \<and>
          (\<forall>i < length (rows t). rows t' ! i = rows t ! i \<or>
             sql_value (rows t' ! i) ''is_suitable'' = Integer 1 \<or>
             sql_value (rows t' ! i) ''is_suitable'' = Integer 2)"
  proof -
    fix rt data t t'
    assume a: "db = Some t \<and> snd (api_mark rt data db) = Some t'"
    from a have d: "db = Some t" by (rule conjunct1)
    from a have "snd (api_mark rt data db) = Some t'" by (rule conjunct2)
    then have m: "snd (api_mark rt data (Some t)) = Some t'" unfolding d .
    from c d have "cols t = create_table_columns" by (simp add: canonical_def)
    moreover from s d have "suitability_ok (Some t)" by simp
    ultimately show "length (rows t') = length (rows t) \<and>
          (\<forall>i < length (rows t). rows t' ! i = rows t ! i \<or>
             sql_value (rows t' ! i) ''is_suitable'' = Integer 1 \<or>
             sql_value (rows t' ! i) ''is_suitable'' = Integer 2)"
      using m by (rule mark_writes)
  qed
  ultimately show ?thesis using s by blast
qed

lemma init_new: "init_db test_runtime None = Some empty_table"
  by (simp add: init_db_def create_table_if_not_exists_def empty_table_def)

lemma reachable_marked: "reachable (Some marked_table)"
proof -
  have "reachable (init_db test_runtime None)" by (intro reachable.init reachable.start)
  then have "reachable (Some empty_table)" by (simp add: init_new)
  then have "reachable (snd (load_data_to_db test_runtime test_fs (ascii ''a.xlsx'') (Some empty_table)))"
    by (rule reachable.load)
  then have "reachable (Some table_A)" by (simp add: load_A)
  then have "reachable (snd (load_data_to_db test_runtime test_fs (ascii ''b.xlsx'') (Some table_A)))"
    by (rule reachable.load)
  then have "reachable (Some example_table)" by (simp add: load_B)
  then have "reachable (snd (api_mark test_runtime [''id'' \<mapsto> JInt 2, ''suitable'' \<mapsto> JBool True]
                               (Some example_table)))"
    by (rule reachable.mark)
  then show ?thesis by (simp add: mark_bolt)
qed

theorem suitability_invariant_witness:
  "reachable (Some marked_table) \<and> suitability_ok (Some marked_table) \<and>
   rows marked_table = [posting_bolt_marked, posting_core] \<and>
   sql_value posting_bolt_marked ''is_suitable'' = Integer 1 \<and>
   sql_value posting_core ''is_suitable'' = Integer 0"
  using suitability_invariant [OF reachable_marked] reachable_marked
  by (simp add: marked_table_def example_table_def example_values)

section \<open>The schema manager: healing a table\<close>

lemma sql_add_column_refused:
  "sql_add_column rt t c =
     (if refused t c then Inl OperationalError
      else Inr (t\<lparr>cols := cols t @ [c],
                  rows := map (\<lambda>r. r @ [(col_name c, default_value rt 0 c)]) (rows t)\<rparr>))"
  by (auto simp: sql_add_column_def refused_def)

lemma find_snoc:
  "find P (xs @ [x]) = (case find P xs of Some y \<Rightarrow> Some y | None \<Rightarrow> if P x then Some x else None)"
  by (induction xs) simp_all

lemma find_column_append:
  "find_column (t\<lparr>cols := cols t @ [c], rows := rs\<rparr>) n =
     (case find_column t n of
        Some d \<Rightarrow> Some d
      | None \<Rightarrow> if sql_name (col_name c) = sql_name n then Some c else None)"
  by (simp add: find_column_def find_snoc)

lemma refused_step:
  "refused t c \<Longrightarrow>
   refused (t\<lparr>cols := cols t @ [d], rows := map f (rows t)\<rparr>) c"
  by (auto simp: refused_def find_column_append split: option.splits)

lemma refused_added:
  "refused (t\<lparr>cols := cols t @ [c], rows := rs\<rparr>) c"
  by (simp add: refused_def find_column_append split: option.splits)

lemma refused_kept:
  "refused t c \<Longrightarrow> refused (add_missing_columns rt E cs t) c"
proof (induction cs arbitrary: t)
  case Nil
  then show ?case by simp
next
  case (Cons d cs)
  then show ?case
    by (simp add: sql_add_column_refused refused_step)
qed

lemma refused_after:
  "c \<in> set cs \<Longrightarrow> col_name c \<notin> set E \<Longrightarrow> refused (add_missing_columns rt E cs t) c"
proof (induction cs arbitrary: t)
  case Nil
  then show ?case by simp
next
  case (Cons d cs)
  show ?case
  proof (cases "c = d")
    case True
    with Cons.prems(2) show ?thesis
      by (auto simp: sql_add_column_refused intro: refused_kept refused_added)
  next
    case False
    with Cons show ?thesis by (simp add: sql_add_column_refused)
  qed
qed

lemma add_missing_refused:
  "\<forall>c \<in> set cs. col_name c \<notin> set E \<longrightarrow> refused t c \<Longrightarrow> add_missing_columns rt E cs t = t"
  by (induction cs) (simp_all add: sql_add_column_refused)

lemma names_kept:
  "n \<in> set (map col_name (cols t)) \<Longrightarrow>
   n \<in> set (map col_name (cols (add_missing_columns rt E cs t)))"
proof (induction cs arbitrary: t)
  case Nil
  then show ?case by simp
next
  case (Cons d cs)
  show ?case
  proof (cases "col_name d \<notin> set E \<and> \<not> refused t d")
    case True
    define t' where "t' = t\<lparr>cols := cols t @ [d],
                              rows := map (\<lambda>r. r @ [(col_name d, default_value rt 0 d)]) (rows t)\<rparr>"
    from Cons.prems have "n \<in> set (map col_name (cols t'))" by (simp add: t'_def)
    then have "n \<in> set (map col_name (cols (add_missing_columns rt E cs t')))" by (rule Cons.IH)
    with True show ?thesis by (simp add: sql_add_column_refused t'_def)
  next
    case False
    from Cons.prems have "n \<in> set (map col_name (cols (add_missing_columns rt E cs t)))"
      by (rule Cons.IH)
    with False show ?thesis by (auto simp: sql_add_column_refused)
  qed
qed

lemma add_missing_name:
  "table_name (add_missing_columns rt E cs t) = table_name t"
proof (induction cs arbitrary: t)
  case Nil
  then show ?case by simp
next
  case (Cons d cs)
  show ?case
  proof (cases "col_name d \<notin> set E \<and> \<not> refused t d")
    case True
    then show ?thesis by (simp add: sql_add_column_refused Cons.IH)
  next
    case False
    then show ?thesis by (auto simp: sql_add_column_refused Cons.IH)
  qed
qed

lemma init_db_twice: "init_db rt2 (init_db rt db) = init_db rt db"
proof (cases db)
  case None
  then show ?thesis
    by (simp add: init_db_def create_table_if_not_exists_def add_missing_canonical table_exists_def)
next
  case (Some t)
  show ?thesis
  proof (cases "table_name t = ''companies''")
    case False
    with Some show ?thesis
      by (simp add: init_db_def create_table_if_not_exists_def table_exists_def)
  next
    case True
    define t' where "t' = add_missing_columns rt (map col_name (cols t)) required_columns t"
    have n: "table_name t' = ''companies''" using True by (simp add: t'_def add_missing_name)
    have "\<forall>c \<in> set required_columns. col_name c \<notin> set (map col_name (cols t')) \<longrightarrow> refused t' c"
    proof (intro ballI impI)
      fix c assume c: "c \<in> set required_columns" and m: "col_name c \<notin> set (map col_name (cols t'))"
      from m names_kept [of "col_name c" t rt "map col_name (cols t)" required_columns]
      have "col_name c \<notin> set (map col_name (cols t))" unfolding t'_def by blast
      with c show "refused t' c" unfolding t'_def by (rule refused_after)
    qed
    then have "add_missing_columns rt2 (map col_name (cols t')) required_columns t' = t'"
      by (rule add_missing_refused)
    with Some True n show ?thesis
      by (simp add: init_db_def create_table_if_not_exists_def table_exists_def t'_def)
  qed
qed

lemma find_column_None: "find_column t n = None \<Longrightarrow> n \<notin> set (map col_name (cols t))"
  by (auto simp: find_column_def find_None_iff)

lemma add_missing_exact:
  assumes "distinct (map (\<lambda>c. sql_name (col_name c)) cs)"
    and "\<forall>c \<in> set cs. \<not> is_pk c"
    and "\<forall>c \<in> set cs. col_default c = DefaultCurrentTimestamp \<longrightarrow>
           rows t = [] \<or> find_column t (col_name c) \<noteq> None"
    and "\<forall>c \<in> set cs. find_column t (col_name c) = None \<longrightarrow> col_name c \<notin> set E"
  shows "add_missing_columns rt E cs t =
           t\<lparr>cols := cols t @ [c \<leftarrow> cs. find_column t (col_name c) = None],
             rows := map (\<lambda>r. r @ map (\<lambda>c. (col_name c, default_value rt 0 c))
                                      [c \<leftarrow> cs. find_column t (col_name c) = None]) (rows t)\<rparr>"
  using assms
proof (induction cs arbitrary: t)
  case Nil
  then show ?case by simp
next
  case (Cons d cs)
  have ih: "add_missing_columns rt E cs u =
           u\<lparr>cols := cols u @ [c \<leftarrow> cs. find_column u (col_name c) = None],
             rows := map (\<lambda>r. r @ map (\<lambda>c. (col_name c, default_value rt 0 c))
                                      [c \<leftarrow> cs. find_column u (col_name c) = None]) (rows u)\<rparr>"
    if "\<forall>c \<in> set cs. col_default c = DefaultCurrentTimestamp \<longrightarrow>
           rows u = [] \<or> find_column u (col_name c) \<noteq> None"
      and "\<forall>c \<in> set cs. find_column u (col_name c) = None \<longrightarrow> col_name c \<notin> set E" for u
    using Cons.prems(1,2) that by (intro Cons.IH) simp_all
  show ?case
  proof (cases "find_column t (col_name d) = None")
    case False
    then obtain y where y: "find_column t (col_name d) = Some y" by auto
    then have r: "refused t d" by (simp add: refused_def)
    have "add_missing_columns rt E (d # cs) t = add_missing_columns rt E cs t"
      using r by (simp add: sql_add_column_refused)
    also have "\<dots> = t\<lparr>cols := cols t @ [c \<leftarrow> cs. find_column t (col_name c) = None],
             rows := map (\<lambda>r. r @ map (\<lambda>c. (col_name c, default_value rt 0 c))
                                      [c \<leftarrow> cs. find_column t (col_name c) = None]) (rows t)\<rparr>"
      using Cons.prems(3,4) by (intro ih) simp_all
    finally show ?thesis using y by (simp del: add_missing_columns.simps)
  next
    case True
    define u where "u = t\<lparr>cols := cols t @ [d],
                            rows := map (\<lambda>r. r @ [(col_name d, default_value rt 0 d)]) (rows t)\<rparr>"
    from True Cons.prems(2,3) have r: "\<not> refused t d" by (auto simp: refused_def)
    from True Cons.prems(4) have e: "col_name d \<notin> set E" by simp
    have f: "find_column u (col_name c) = find_column t (col_name c)" if "c \<in> set cs" for c
    proof -
      from that Cons.prems(1) have "sql_name (col_name d) \<noteq> sql_name (col_name c)" by auto
      then show ?thesis by (simp add: u_def find_column_append split: option.splits)
    qed
    then have g: "[c \<leftarrow> cs. find_column u (col_name c) = None] =
                  [c \<leftarrow> cs. find_column t (col_name c) = None]"
      by (intro filter_cong) simp_all
    have "add_missing_columns rt E (d # cs) t = add_missing_columns rt E cs u"
      using r e by (simp add: sql_add_column_refused u_def)
    also have "\<dots> = u\<lparr>cols := cols u @ [c \<leftarrow> cs. find_column u (col_name c) = None],
             rows := map (\<lambda>r. r @ map (\<lambda>c. (col_name c, default_value rt 0 c))
                                      [c \<leftarrow> cs. find_column u (col_name c) = None]) (rows u)\<rparr>"
    proof (rule ih)
      show "\<forall>c \<in> set cs. col_default c = DefaultCurrentTimestamp \<longrightarrow>
              rows u = [] \<or> find_column u (col_name c) \<noteq> None"
        using Cons.prems(3) f by (simp add: u_def)
      show "\<forall>c \<in> set cs. find_column u (col_name c) = None \<longrightarrow> col_name c \<notin> set E"
        using Cons.prems(4) f by simp
    qed
    finally have x: "add_missing_columns rt E (d # cs) t =
           u\<lparr>cols := cols u @ [c \<leftarrow> cs. find_column t (col_name c) = None],
             rows := map (\<lambda>r. r @ map (\<lambda>c. (col_name c, default_value rt 0 c))
                                      [c \<leftarrow> cs. find_column t (col_name c) = None]) (rows u)\<rparr>"
      unfolding g .
    show ?thesis unfolding x using True by (simp add: u_def o_def)
  qed
qed

lemma required_names:
  "distinct (map (\<lambda>c. sql_name (col_name c)) required_columns)"
  by (simp add: required_columns_def column_def)

lemma required_not_pk: "\<forall>c \<in> set required_columns. \<not> is_pk c"
  by (simp add: required_columns_def column_def is_pk_def)

lemma required_timestamp:
  "\<forall>c \<in> set required_columns. col_default c = DefaultCurrentTimestamp \<longrightarrow> col_name c = ''created_at''"
  by (simp add: required_columns_def column_def)

lemma init_db_exact:
  assumes "rows t = [] \<or> find_column t ''created_at'' \<noteq> None"
    and "table_name t = ''companies''"
  shows "init_db rt (Some t) =
           Some (t\<lparr>cols := cols t @ missing_columns t,
                   rows := map (\<lambda>r. r @ map (\<lambda>c. (col_name c, default_value rt 0 c))
                                            (missing_columns t)) (rows t)\<rparr>)"
proof -
  have "add_missing_columns rt (map col_name (cols t)) required_columns t =
          t\<lparr>cols := cols t @ missing_columns t,
            rows := map (\<lambda>r. r @ map (\<lambda>c. (col_name c, default_value rt 0 c))
                                     (missing_columns t)) (rows t)\<rparr>"
    unfolding missing_columns_def
  proof (rule add_missing_exact [OF required_names required_not_pk])
    show "\<forall>c \<in> set required_columns. col_default c = DefaultCurrentTimestamp \<longrightarrow>
            rows t = [] \<or> find_column t (col_name c) \<noteq> None"
      using assms(1) required_timestamp by auto
    show "\<forall>c \<in> set required_columns. find_column t (col_name c) = None \<longrightarrow>
            col_name c \<notin> set (map col_name (cols t))"
      using find_column_None by blast
  qed
  then show ?thesis
    using assms(2) by (simp add: init_db_def create_table_if_not_exists_def table_exists_def)
qed

text \<open>
  Claim C8. \<open>init_db\<close> is idempotent: a second run changes nothing. On a database without
  the table it creates the table with the columns of the \<open>CREATE TABLE\<close> statement. On a
  table that is stored under the name \<open>companies\<close> in these letters, and that is empty or
  has the column \<open>created_at\<close>, it adds, after the columns there are and in the order of
  \<open>required_columns\<close>, exactly the columns of \<open>required_columns\<close> that the table has not,
  as they are declared; every row keeps its values and takes the defaults of the new
  columns, and no column is dropped or renamed.
\<close>

theorem ensure_schema:
  "init_db rt2 (init_db rt db) = init_db rt db \<and>
   init_db rt None =
     Some \<lparr>table_name = ''companies'', cols = create_table_columns, rows = [], seq = 0\<rparr> \<and>
   (\<forall>t. db = Some t \<and> table_name t = ''companies'' \<and>
        (rows t = [] \<or> find_column t ''created_at'' \<noteq> None) \<longrightarrow>
      init_db rt db =
        Some (t\<lparr>cols := cols t @ missing_columns t,
                rows := map (\<lambda>r. r @ map (\<lambda>c. (col_name c, default_value rt 0 c))
                                         (missing_columns t)) (rows t)\<rparr>))"
proof (intro conjI allI impI)
  show "init_db rt2 (init_db rt db) = init_db rt db" by (rule init_db_twice)
  show "init_db rt None =
     Some \<lparr>table_name = ''companies'', cols = create_table_columns, rows = [], seq = 0\<rparr>"
    by (simp add: init_db_def create_table_if_not_exists_def)
next
  fix t
  assume "db = Some t \<and> table_name t = ''companies'' \<and>
        (rows t = [] \<or> find_column t ''created_at'' \<noteq> None)"
  then show "init_db rt db =
        Some (t\<lparr>cols := cols t @ missing_columns t,
                rows := map (\<lambda>r. r @ map (\<lambda>c. (col_name c, default_value rt 0 c))
                                         (missing_columns t)) (rows t)\<rparr>)"
    using init_db_exact [of t rt] by auto
qed

lemma missing_legacy:
  "missing_columns legacy_table =
     [column ''serial_number'' TEXT NoDefault,
      column ''batch'' TEXT NoDefault,
      column ''company_type'' TEXT NoDefault,
      column ''industry'' TEXT NoDefault,
      column ''recruitment_target'' TEXT NoDefault,
      column ''positions'' TEXT NoDefault,
      column ''application_status'' TEXT NoDefault,
      column ''location'' TEXT NoDefault,
      column ''update_time'' TEXT NoDefault,
      column ''deadline'' TEXT NoDefault,
      column ''official_announcement'' TEXT NoDefault,
      column ''application_method'' TEXT NoDefault,
      column ''referral_code'' TEXT NoDefault,
      column ''is_suitable'' INTEGER (DefaultInt 0)]"
  by (simp add: missing_columns_def required_columns_def legacy_table_def find_column_def column_def)

lemma legacy_created_at: "find_column legacy_table ''created_at'' \<noteq> None"
  by (simp add: legacy_table_def find_column_def column_def)

theorem ensure_schema_witness:
  "table_name legacy_table = ''companies'' \<and>
   rows legacy_table \<noteq> [] \<and> find_column legacy_table ''created_at'' \<noteq> None \<and>
   init_db test_runtime (Some legacy_table) = Some healed_table \<and>
   init_db test_runtime (Some healed_table) = Some healed_table"
proof -
  have d: "default_value test_runtime 0 (column n TEXT NoDefault) = Null"
    "default_value test_runtime 0 (column n INTEGER (DefaultInt 0)) = Integer 0" for n
    by (simp_all add: default_value_def apply_affinity_def column_def)
  have r: "rows legacy_table \<noteq> []" "table_name legacy_table = ''companies''"
    by (simp_all add: legacy_table_def)
  have h: "init_db test_runtime (Some legacy_table) = Some healed_table"
    using ensure_schema [of test_runtime test_runtime "Some legacy_table", THEN conjunct2, THEN conjunct2]
      legacy_created_at r(2)
    by (simp add: missing_legacy d) (simp add: legacy_table_def healed_table_def column_def)
  from ensure_schema [of test_runtime test_runtime "Some legacy_table", THEN conjunct1]
  have "init_db test_runtime (Some healed_table) = Some healed_table" by (simp add: h)
  with r h legacy_created_at show ?thesis by simp
qed

theorem missing_column_counterexample:
  "column ''id'' INTEGER_PRIMARY_KEY_AUTOINCREMENT NoDefault \<in> set create_table_columns \<and>
   find_column no_id_table ''id'' = None \<and>
   init_db test_runtime (Some no_id_table) = Some no_id_table \<and>
   column ''created_at'' TIMESTAMP DefaultCurrentTimestamp \<in> set create_table_columns \<and>
   find_column old_table ''created_at'' = None \<and>
   init_db test_runtime (Some old_table) = Some old_table \<and>
   column ''location'' TEXT NoDefault \<in> set create_table_columns \<and>
   find_column capital_table ''created_at'' \<noteq> None \<and>
   find_column capital_table ''location'' = None \<and>
   init_db test_runtime (Some capital_table) = Some capital_table"
proof -
  have a: "find_column no_id_table ''id'' = None"
    by (simp add: no_id_table_def required_columns_def find_column_def column_def)
  have b: "find_column old_table ''created_at'' = None"
    by (simp add: old_table_def create_table_columns_def find_column_def column_def)
  have "add_missing_columns test_runtime (map col_name required_columns) required_columns no_id_table =
          no_id_table"
    by (simp add: required_columns_def column_def)
  then have c: "init_db test_runtime (Some no_id_table) = Some no_id_table"
    by (simp add: init_db_def create_table_if_not_exists_def no_id_table_def table_exists_def)
  have r: "refused old_table (column ''created_at'' TIMESTAMP DefaultCurrentTimestamp)"
    by (simp add: refused_def old_table_def column_def)
  have "add_missing_columns test_runtime (map col_name (butlast create_table_columns))
          required_columns old_table = old_table"
    using r by (simp add: required_columns_def create_table_columns_def sql_add_column_refused)
  then have d: "init_db test_runtime (Some old_table) = Some old_table"
    by (simp add: init_db_def create_table_if_not_exists_def old_table_def table_exists_def)
  have e: "find_column capital_table ''created_at'' \<noteq> None"
    "find_column capital_table ''location'' = None"
    by (simp_all add: capital_table_def legacy_table_def find_column_def column_def)
  have f: "init_db test_runtime (Some capital_table) = Some capital_table"
    by (simp add: init_db_def create_table_if_not_exists_def capital_table_def table_exists_def)
  show ?thesis using a b c d e f by (simp add: create_table_columns_def)
qed

section \<open>The importer: the headers and the fields of a row\<close>

lemma ascii_inject: "ascii a = ascii b \<longleftrightarrow> a = b"
proof -
  have "inj (of_char :: char \<Rightarrow> nat)" by (rule injI) simp
  then show ?thesis by (simp add: ascii_def inj_map_eq_map)
qed

lemma excel_columns_unpadded:
  "\<forall>h \<in> set headers. strip h = h \<Longrightarrow> excel_columns_of (map HStr headers) = Inr headers"
  by (induction headers) simp_all

lemma spec_match_Some:
  "spec_match rt ex c = Some h \<Longrightarrow> h \<in> set ex \<and> py_lower rt h = py_lower rt c"
  by (auto simp: spec_match_def find_Some_iff split: if_splits)

lemma map_columns_step:
  "map_columns rt ex ((c, f) # items) m =
     map_columns rt ex items (case spec_match rt ex c of Some h \<Rightarrow> m(h \<mapsto> f) | None \<Rightarrow> m)"
  by (simp add: spec_match_def split: option.splits)

lemma map_columns_other:
  "\<forall>(c, f) \<in> set items. spec_match rt ex c \<noteq> Some h \<Longrightarrow> map_columns rt ex items m h = m h"
proof (induction items arbitrary: m)
  case Nil
  then show ?case by simp
next
  case (Cons a items)
  obtain c f where a: "a = (c, f)" by (cases a)
  from Cons.prems have "\<forall>(c, f) \<in> set items. spec_match rt ex c \<noteq> Some h" by simp
  then have "map_columns rt ex items m' h = m' h" for m' by (rule Cons.IH)
  moreover from Cons.prems a have "spec_match rt ex c \<noteq> Some h" by simp
  ultimately show ?case unfolding a map_columns_step by (simp split: option.splits)
qed

lemma map_columns_matched:
  assumes "(c, f) \<in> set items" and "spec_match rt ex c = Some h"
    and "\<forall>(c', f') \<in> set items. spec_match rt ex c' = Some h \<longrightarrow> f' = f"
  shows "map_columns rt ex items m h = Some f"
  using assms
proof (induction items arbitrary: m c)
  case Nil
  then show ?case by simp
next
  case (Cons a items)
  obtain c0 f0 where a: "a = (c0, f0)" by (cases a)
  define m' where "m' = (case spec_match rt ex c0 of Some h \<Rightarrow> m(h \<mapsto> f0) | None \<Rightarrow> m)"
  have u: "\<forall>(c', f') \<in> set items. spec_match rt ex c' = Some h \<longrightarrow> f' = f"
    using Cons.prems(3) by simp
  show ?case
  proof (cases "\<exists>(c', f') \<in> set items. spec_match rt ex c' = Some h")
    case True
    then obtain c' f' where e: "(c', f') \<in> set items" "spec_match rt ex c' = Some h" by auto
    with u have "f' = f" by auto
    with e have "(c', f) \<in> set items" by simp
    from this e(2) u have "map_columns rt ex items m' h = Some f" by (rule Cons.IH)
    then show ?thesis unfolding a map_columns_step m'_def .
  next
    case False
    then have n: "\<forall>(c, f) \<in> set items. spec_match rt ex c \<noteq> Some h" by auto
    from False Cons.prems(1,2) have "(c, f) = a" by auto
    with a Cons.prems(2) have "m' h = Some f" by (simp add: m'_def)
    with map_columns_other [OF n, of m'] show ?thesis unfolding a map_columns_step m'_def by simp
  qed
qed

lemma map_columns_source:
  "map_columns rt ex items m h = Some v \<Longrightarrow>
   m h = Some v \<or> (\<exists>(c, f) \<in> set items. spec_match rt ex c = Some h \<and> f = v)"
proof (induction items arbitrary: m)
  case Nil
  then show ?case by simp
next
  case (Cons a items)
  obtain c0 f0 where a: "a = (c0, f0)" by (cases a)
  define m' where "m' = (case spec_match rt ex c0 of Some h \<Rightarrow> m(h \<mapsto> f0) | None \<Rightarrow> m)"
  from Cons.prems have "map_columns rt ex items m' h = Some v"
    unfolding a map_columns_step m'_def .
  then have "m' h = Some v \<or> (\<exists>(c, f) \<in> set items. spec_match rt ex c = Some h \<and> f = v)"
    by (rule Cons.IH)
  then show ?case
  proof
    assume "m' h = Some v"
    then have "m h = Some v \<or> (spec_match rt ex c0 = Some h \<and> f0 = v)"
      by (auto simp: m'_def split: option.splits if_splits)
    then show ?thesis using a by auto
  next
    assume "\<exists>(c, f) \<in> set items. spec_match rt ex c = Some h \<and> f = v"
    then show ?thesis by auto
  qed
qed

lemma single_label:
  "i < length xs \<Longrightarrow> length ys = length xs \<Longrightarrow> xs ! i = k \<Longrightarrow>
   \<forall>j < length xs. j \<noteq> i \<longrightarrow> xs ! j \<noteq> k \<Longrightarrow>
   map snd (filter (\<lambda>(l, v). l = k) (zip xs ys)) = [ys ! i]"
proof (induction xs arbitrary: ys i)
  case Nil
  then show ?case by simp
next
  case (Cons x xs)
  from Cons.prems(2) obtain y ys' where ys: "ys = y # ys'" by (cases ys) auto
  show ?case
  proof (cases i)
    case 0
    have "\<forall>j < length xs. xs ! j \<noteq> k"
    proof (intro allI impI)
      fix j assume "j < length xs"
      with Cons.prems(4) [rule_format, of "Suc j"] 0 show "xs ! j \<noteq> k" by simp
    qed
    then have "k \<notin> set xs" by (auto simp: in_set_conv_nth)
    then have "filter (\<lambda>(l, v). l = k) (zip xs ys') = []"
      by (auto simp: filter_empty_conv dest: set_zip_leftD)
    with 0 Cons.prems(3) ys show ?thesis by simp
  next
    case (Suc i')
    from Cons.prems(4) [rule_format, of 0] Suc have x: "x \<noteq> k" by simp
    have "\<forall>j < length xs. j \<noteq> i' \<longrightarrow> xs ! j \<noteq> k"
    proof (intro allI impI)
      fix j assume "j < length xs" "j \<noteq> i'"
      with Cons.prems(4) [rule_format, of "Suc j"] Suc show "xs ! j \<noteq> k" by simp
    qed
    with Cons.prems Suc ys have "map snd (filter (\<lambda>(l, v). l = k) (zip xs ys')) = [ys' ! i']"
      by (intro Cons.IH) simp_all
    with x Suc ys show ?thesis by simp
  qed
qed

lemma row_get_single:
  "i < length labels \<Longrightarrow> length row = length labels \<Longrightarrow> labels ! i = HStr key \<Longrightarrow>
   \<forall>j < length labels. j \<noteq> i \<longrightarrow> labels ! j \<noteq> HStr key \<Longrightarrow>
   row_get labels row key d = One (row ! i)"
  by (simp add: row_get_def single_label)

lemma mapping_keys: "distinct (map fst column_mapping)"
  by (simp add: column_mapping_def header_defs)

lemma mapping_fields: "distinct (map snd column_mapping)"
  by (simp add: column_mapping_def ascii_inject)

lemma mapping_field:
  "(c, ascii n) \<in> set column_mapping \<Longrightarrow> n \<in> set insert_columns"
  by (auto simp: column_mapping_def insert_columns_def ascii_inject)

lemma value_imp_key:
  "distinct (map snd xs) \<Longrightarrow> (a, v) \<in> set xs \<Longrightarrow> (b, v) \<in> set xs \<Longrightarrow> a = b"
  by (induction xs) force+

lemma matched_once:
  assumes "inj_on (py_lower rt) (fst ` set column_mapping)"
    and "(c, f) \<in> set column_mapping" and "(c', f') \<in> set column_mapping"
    and "spec_match rt ex c = Some h" and "spec_match rt ex c' = Some h"
  shows "f' = f"
proof -
  from assms(4,5) have "py_lower rt c' = py_lower rt c" by (auto dest!: spec_match_Some)
  moreover from assms(2,3) have "c \<in> fst ` set column_mapping" "c' \<in> fst ` set column_mapping"
    by force+
  ultimately have "c' = c" using assms(1) by (auto dest: inj_onD)
  with assms(2,3) mapping_keys show ?thesis by (auto dest: eq_key_imp_eq_value)
qed

lemma renamed_unpadded:
  assumes "\<forall>h \<in> set headers. strip h = h"
  shows "renamed_columns rt \<lparr>df_columns = map HStr headers, df_data = d\<rparr> =
           Inr (map (\<lambda>h. case map_columns rt headers column_mapping Map.empty h of
                           Some v \<Rightarrow> HStr v | None \<Rightarrow> HStr h) headers)"
  using assms by (simp add: renamed_columns_def excel_columns_unpadded rename_def o_def)

lemma label_matched:
  assumes "inj_on (py_lower rt) (fst ` set column_mapping)"
    and "(c, f) \<in> set column_mapping" and "spec_match rt headers c = Some h"
  shows "map_columns rt headers column_mapping Map.empty h = Some f"
  using assms(2,3)
proof (rule map_columns_matched)
  show "\<forall>(c', f') \<in> set column_mapping. spec_match rt headers c' = Some h \<longrightarrow> f' = f"
    using matched_once [OF assms(1,2) _ assms(3)] by auto
qed

lemma label_source:
  assumes "\<forall>h \<in> set headers. h \<notin> snd ` set column_mapping"
    and "(c, f) \<in> set column_mapping" and "h \<in> set headers"
    and "(case map_columns rt headers column_mapping Map.empty h of
            Some v \<Rightarrow> HStr v | None \<Rightarrow> HStr h) = HStr f"
  shows "spec_match rt headers c = Some h"
proof (cases "map_columns rt headers column_mapping Map.empty h")
  case None
  with assms(4) have "h = f" by simp
  with assms(2) have "h \<in> snd ` set column_mapping" by force
  with assms(1,3) show ?thesis by blast
next
  case (Some v)
  with assms(4) have v: "v = f" by simp
  from map_columns_source [OF Some] obtain c' where
    c': "(c', f) \<in> set column_mapping" "spec_match rt headers c' = Some h"
    unfolding v by auto
  from value_imp_key [OF mapping_fields c'(1) assms(2)] c'(2) show ?thesis by simp
qed

text \<open>
  Claim C1. For a sheet whose headers are texts without surrounding whitespace, pairwise
  different and none of them the name of an internal field, and for every entry of
  \<open>column_mapping\<close>: the header matched to the canonical name (the exact match first, then
  the first header equal up to case) is a header of the sheet, its column is renamed to the
  internal field, and the field of the insertion tuple of a row is the cell of the row in
  that column (through \<open>str()\<close> for \<open>serial_number\<close>); when no header is matched, no
  column carries the name of the internal field, and the field of the tuple is the empty
  string, except \<open>serial_number\<close>, which is the 1-based index of the row. The lower-casing
  of the environment is taken to keep the 14 canonical names apart.
\<close>

theorem header_reconciliation:
  assumes "\<forall>h \<in> set headers. strip h = h"
    and "distinct headers"
    and "\<forall>h \<in> set headers. h \<notin> snd ` set column_mapping"
    and "inj_on (py_lower rt) (fst ` set column_mapping)"
    and "(excel_col, ascii n) \<in> set column_mapping"
    and "length row = length headers"
  shows "\<exists>labels.
           renamed_columns rt \<lparr>df_columns = map HStr headers, df_data = d\<rparr> = Inr labels \<and>
           length labels = length headers \<and>
           (\<forall>h. spec_match rt headers excel_col = Some h \<longrightarrow> h \<in> set headers) \<and>
           (\<forall>i < length headers. spec_match rt headers excel_col = Some (headers ! i) \<longrightarrow>
              labels ! i = HStr (ascii n) \<and>
              tuple_field (insert_data rt labels row idx) n =
                Some (One (if n = ''serial_number'' then CStr (cell_str (row ! i)) else row ! i))) \<and>
           (spec_match rt headers excel_col = None \<longrightarrow>
              HStr (ascii n) \<notin> set labels \<and>
              tuple_field (insert_data rt labels row idx) n =
                Some (One (CStr (if n = ''serial_number'' then show_nat (idx + 1) else []))))"
proof -
  define m where "m = map_columns rt headers column_mapping Map.empty"
  define labels where
    "labels = map (\<lambda>h. case m h of Some v \<Rightarrow> HStr v | None \<Rightarrow> HStr h) headers"
  have r: "renamed_columns rt \<lparr>df_columns = map HStr headers, df_data = d\<rparr> = Inr labels"
    unfolding labels_def m_def using assms(1) by (rule renamed_unpadded)
  have l: "length labels = length headers" by (simp add: labels_def)
  have n: "n \<in> set insert_columns" using assms(5) by (rule mapping_field)
  have src: "spec_match rt headers excel_col = Some (headers ! j)"
    if "j < length headers" "labels ! j = HStr (ascii n)" for j
  proof (rule label_source [OF assms(3,5)])
    show "headers ! j \<in> set headers" using that(1) by simp
    show "(case map_columns rt headers column_mapping Map.empty (headers ! j) of
             Some v \<Rightarrow> HStr v | None \<Rightarrow> HStr (headers ! j)) = HStr (ascii n)"
      using that by (simp add: labels_def m_def)
  qed
  have a: "\<forall>h. spec_match rt headers excel_col = Some h \<longrightarrow> h \<in> set headers"
    by (auto dest: spec_match_Some)
  have b: "labels ! i = HStr (ascii n) \<and>
           tuple_field (insert_data rt labels row idx) n =
             Some (One (if n = ''serial_number'' then CStr (cell_str (row ! i)) else row ! i))"
    if i: "i < length headers" and s: "spec_match rt headers excel_col = Some (headers ! i)" for i
  proof -
    from label_matched [OF assms(4,5) s] i have li: "labels ! i = HStr (ascii n)"
      by (simp add: labels_def m_def)
    have "\<forall>j < length labels. j \<noteq> i \<longrightarrow> labels ! j \<noteq> HStr (ascii n)"
    proof (intro allI impI notI)
      fix j assume j: "j < length labels" "j \<noteq> i" "labels ! j = HStr (ascii n)"
      with src [of j] l s have "headers ! j = headers ! i" by simp
      with assms(2) i j(1) l have "j = i" by (simp add: nth_eq_iff_index_eq)
      with j(2) show False by simp
    qed
    with i l li assms(6) have g: "row_get labels row (ascii n) dflt = One (row ! i)" for dflt
      by (intro row_get_single) simp_all
    have "tuple_field (insert_data rt labels row idx) n =
            Some (One (if n = ''serial_number'' then CStr (cell_str (row ! i)) else row ! i))"
      unfolding tuple_field_insert_data [OF n] g by simp
    with li show ?thesis by simp
  qed
  have c: "HStr (ascii n) \<notin> set labels \<and>
           tuple_field (insert_data rt labels row idx) n =
             Some (One (CStr (if n = ''serial_number'' then show_nat (idx + 1) else [])))"
    if s: "spec_match rt headers excel_col = None"
  proof -
    have x: "HStr (ascii n) \<notin> set labels"
    proof
      assume "HStr (ascii n) \<in> set labels"
      then obtain j where "j < length labels" "labels ! j = HStr (ascii n)"
        by (auto simp: in_set_conv_nth)
      with src [of j] l s show False by simp
    qed
    then have g: "row_get labels row (ascii n) dflt = One dflt" for dflt by (rule row_get_absent)
    have "tuple_field (insert_data rt labels row idx) n =
            Some (One (CStr (if n = ''serial_number'' then show_nat (idx + 1) else [])))"
      unfolding tuple_field_insert_data [OF n] g by simp
    with x show ?thesis by simp
  qed
  have b': "\<forall>i < length headers. spec_match rt headers excel_col = Some (headers ! i) \<longrightarrow>
              labels ! i = HStr (ascii n) \<and>
              tuple_field (insert_data rt labels row idx) n =
                Some (One (if n = ''serial_number'' then CStr (cell_str (row ! i)) else row ! i))"
    by (intro allI impI) (rule b)
  have c': "spec_match rt headers excel_col = None \<longrightarrow>
              HStr (ascii n) \<notin> set labels \<and>
              tuple_field (insert_data rt labels row idx) n =
                Some (One (CStr (if n = ''serial_number'' then show_nat (idx + 1) else [])))"
    by (intro impI) (rule c)
  show ?thesis using r l a b' c' by (intro exI [of _ labels] conjI)
qed

lemma test_lower_inj: "inj_on (py_lower test_runtime) (fst ` set column_mapping)"
  by (simp add: column_mapping_def header_defs test_runtime_def ascii_lower_def)

lemma spec_match_B:
  "spec_match test_runtime [gongsi_mingcheng, hangye_dalei] hangye_dalei = Some hangye_dalei"
  "spec_match test_runtime [gongsi_mingcheng, hangye_dalei] gongzuo_didian = None"
  by (simp_all add: spec_match_def header_defs test_runtime_def ascii_lower_def)

lemma sheet_B_unpadded:
  "\<forall>h \<in> set [gongsi_mingcheng, hangye_dalei]. strip h = h"
  "distinct [gongsi_mingcheng, hangye_dalei]"
  "\<forall>h \<in> set [gongsi_mingcheng, hangye_dalei]. h \<notin> snd ` set column_mapping"
  by (simp_all add: strip_def py_isspace_def header_defs column_mapping_def ascii_def)

theorem header_reconciliation_witness:
  "spec_match test_runtime [gongsi_mingcheng, hangye_dalei] hangye_dalei = Some hangye_dalei \<and>
   spec_match test_runtime [gongsi_mingcheng, hangye_dalei] gongzuo_didian = None \<and>
   renamed_columns test_runtime sheet_B = Inr [HStr (ascii ''company_name''), HStr (ascii ''industry'')] \<and>
   tuple_field (insert_data test_runtime [HStr (ascii ''company_name''), HStr (ascii ''industry'')]
                  [CStr (ascii ''Bolt''), CStr (ascii ''Tech'')] 0) ''industry'' =
     Some (One (CStr (ascii ''Tech''))) \<and>
   tuple_field (insert_data test_runtime [HStr (ascii ''company_name''), HStr (ascii ''industry'')]
                  [CStr (ascii ''Bolt''), CStr (ascii ''Tech'')] 0) ''location'' =
     Some (One (CStr []))"
proof -
  have b: "\<lparr>df_columns = map HStr [gongsi_mingcheng, hangye_dalei], df_data = df_data sheet_B\<rparr> = sheet_B"
    by (simp add: sheet_B_def)
  have m: "(hangye_dalei, ascii ''industry'') \<in> set column_mapping"
    "(gongzuo_didian, ascii ''location'') \<in> set column_mapping"
    by (simp_all add: column_mapping_def)
  from header_reconciliation [OF sheet_B_unpadded test_lower_inj m(1),
      of "[CStr (ascii ''Bolt''), CStr (ascii ''Tech'')]" "df_data sheet_B" 0]
  obtain labels where
    l: "renamed_columns test_runtime sheet_B = Inr labels"
    and i: "\<forall>i < length [gongsi_mingcheng, hangye_dalei].
          spec_match test_runtime [gongsi_mingcheng, hangye_dalei] hangye_dalei =
            Some ([gongsi_mingcheng, hangye_dalei] ! i) \<longrightarrow>
          labels ! i = HStr (ascii ''industry'') \<and>
          tuple_field (insert_data test_runtime labels [CStr (ascii ''Bolt''), CStr (ascii ''Tech'')] 0)
            ''industry'' =
            Some (One (if ''industry'' = ''serial_number''
                       then CStr (cell_str ([CStr (ascii ''Bolt''), CStr (ascii ''Tech'')] ! i))
                       else [CStr (ascii ''Bolt''), CStr (ascii ''Tech'')] ! i))"
    unfolding b by auto
  from l have ls: "labels = [HStr (ascii ''company_name''), HStr (ascii ''industry'')]"
    by (simp add: renamed_sheet_B)
  from i [rule_format, of 1] have t: "tuple_field (insert_data test_runtime
       [HStr (ascii ''company_name''), HStr (ascii ''industry'')]
       [CStr (ascii ''Bolt''), CStr (ascii ''Tech'')] 0) ''industry'' = Some (One (CStr (ascii ''Tech'')))"
    by (simp add: spec_match_B ls)
  from header_reconciliation [OF sheet_B_unpadded test_lower_inj m(2),
      of "[CStr (ascii ''Bolt''), CStr (ascii ''Tech'')]" "df_data sheet_B" 0]
  obtain labels' where
    l': "renamed_columns test_runtime sheet_B = Inr labels'"
    and n: "spec_match test_runtime [gongsi_mingcheng, hangye_dalei] gongzuo_didian = None \<longrightarrow>
          HStr (ascii ''location'') \<notin> set labels' \<and>
          tuple_field (insert_data test_runtime labels' [CStr (ascii ''Bolt''), CStr (ascii ''Tech'')] 0)
            ''location'' =
            Some (One (CStr (if ''location'' = ''serial_number'' then show_nat (0 + 1) else [])))"
    unfolding b by auto
  from l' have ls': "labels' = [HStr (ascii ''company_name''), HStr (ascii ''industry'')]"
    by (simp add: renamed_sheet_B)
  from n have u: "tuple_field (insert_data test_runtime
       [HStr (ascii ''company_name''), HStr (ascii ''industry'')]
       [CStr (ascii ''Bolt''), CStr (ascii ''Tech'')] 0) ''location'' = Some (One (CStr []))"
    by (simp add: spec_match_B ls')
  show ?thesis using t u by (simp add: spec_match_B renamed_sheet_B)
qed

lemma show_nat_1: "show_nat (Suc 0) = ascii ''1''"
  by (simp add: show_nat.simps ascii_def)

lemma excel_D: "excel_columns_of (df_columns sheet_D) = Inr [gongsi_mingcheng]"
  by (simp add: sheet_D_def strip_def py_isspace_def header_defs)

lemma renamed_sheet_D: "renamed_columns test_runtime sheet_D = Inr [HStr (32 # gongsi_mingcheng)]"
  by (simp add: renamed_columns_def excel_D mapped_C rename_def)
     (simp add: sheet_D_def header_defs)

lemma excel_E: "excel_columns_of (df_columns sheet_E) = Inr [ascii ''location'']"
  by (simp add: sheet_E_def strip_def py_isspace_def ascii_def)

lemma mapped_E:
  "map_columns test_runtime [ascii ''location''] column_mapping Map.empty = Map.empty"
  by (simp add: column_mapping_def header_defs test_runtime_def ascii_lower_def ascii_def)

lemma renamed_sheet_E: "renamed_columns test_runtime sheet_E = Inr [HStr (ascii ''location'')]"
  by (simp add: renamed_columns_def excel_E mapped_E rename_def)
     (simp add: sheet_E_def)

theorem unmatched_not_empty_counterexample:
  "spec_match test_runtime [gongsi_mingcheng] xuhao = None \<and>
   renamed_columns test_runtime sheet_C = Inr [HStr (ascii ''company_name'')] \<and>
   tuple_field (insert_data test_runtime [HStr (ascii ''company_name'')] [CStr (ascii ''Acme'')] 0)
     ''serial_number'' = Some (One (CStr (ascii ''1''))) \<and>
   ascii ''1'' \<noteq> [] \<and>
   excel_columns_of (df_columns sheet_D) = Inr [gongsi_mingcheng] \<and>
   spec_match test_runtime [gongsi_mingcheng] gongsi_mingcheng = Some gongsi_mingcheng \<and>
   renamed_columns test_runtime sheet_D = Inr [HStr (32 # gongsi_mingcheng)] \<and>
   tuple_field (insert_data test_runtime [HStr (32 # gongsi_mingcheng)] [CStr (ascii ''Acme'')] 0)
     ''company_name'' = Some (One (CStr [])) \<and>
   spec_match test_runtime [ascii ''location''] gongzuo_didian = None \<and>
   renamed_columns test_runtime sheet_E = Inr [HStr (ascii ''location'')] \<and>
   tuple_field (insert_data test_runtime [HStr (ascii ''location'')] [CStr (ascii ''Paris'')] 0)
     ''location'' = Some (One (CStr (ascii ''Paris'')))"
proof -
  have a: "spec_match test_runtime [gongsi_mingcheng] xuhao = None"
    "spec_match test_runtime [gongsi_mingcheng] gongsi_mingcheng = Some gongsi_mingcheng"
    "spec_match test_runtime [ascii ''location''] gongzuo_didian = None"
    by (simp_all add: spec_match_def header_defs test_runtime_def ascii_lower_def ascii_def)
  have n: "''serial_number'' \<in> set insert_columns" "''company_name'' \<in> set insert_columns"
    "''location'' \<in> set insert_columns"
    by (simp_all add: insert_columns_def)
  have g1: "row_get [HStr (ascii ''company_name'')] [CStr (ascii ''Acme'')] (ascii ''serial_number'') d = One d" for d
    by (rule row_get_absent) (simp add: ascii_inject)
  have g2: "row_get [HStr (32 # gongsi_mingcheng)] [CStr (ascii ''Acme'')] (ascii ''company_name'') d = One d" for d
    by (rule row_get_absent) (simp add: ascii_def)
  have g3: "row_get [HStr (ascii ''location'')] [CStr (ascii ''Paris'')] (ascii ''location'') d =
              One (CStr (ascii ''Paris''))" for d
    by (simp add: row_get_def)
  have t1: "tuple_field (insert_data test_runtime [HStr (ascii ''company_name'')] [CStr (ascii ''Acme'')] 0)
     ''serial_number'' = Some (One (CStr (ascii ''1'')))"
    unfolding tuple_field_insert_data [OF n(1)] g1 by (simp add: show_nat_1)
  have t2: "tuple_field (insert_data test_runtime [HStr (32 # gongsi_mingcheng)] [CStr (ascii ''Acme'')] 0)
     ''company_name'' = Some (One (CStr []))"
    unfolding tuple_field_insert_data [OF n(2)] g2 by simp
  have t3: "tuple_field (insert_data test_runtime [HStr (ascii ''location'')] [CStr (ascii ''Paris'')] 0)
     ''location'' = Some (One (CStr (ascii ''Paris'')))"
    unfolding tuple_field_insert_data [OF n(3)] g3 by simp
  have e: "ascii ''1'' \<noteq> []" by (simp add: ascii_def)
  show ?thesis
    using a t1 t2 t3 e renamed_sheet_C excel_D renamed_sheet_D renamed_sheet_E by simp
qed

end
